theory Spec2Isabelle
  imports Complex_Main "HOL-Library.Sublist"
begin

section \<open>Python values shared by the chat graph and its tools\<close>

text \<open>
  Python strings are modelled as \<^typ>\<open>string\<close>. Text outside ASCII is written as its
  UTF-8 bytes; the source only concatenates such text and searches it for ASCII needles, and
  both operations agree on code points and on UTF-8 bytes.

  Exceptions are values. An exception that a node, a tool or an external collaborator
  raises (a subclass of Python's \<open>Exception\<close>) is the text that \<open>str(e)\<close> returns, the
  left summand of a result \<open>string + 'a\<close>. Where the graph engine runs, \<open>exn\<close> tells
  the engine's own \<open>GraphRecursionError\<close>, the one class that \<open>ChatGraph.invoke\<close> catches
  by name, from an exception of a node.
\<close>

datatype exn = GraphRecursionError string | PyException string

text \<open>A \<open>dict\<close> with string keys and string values: \<open>k in d\<close> is \<open>d k \<noteq> None\<close>.\<close>

type_synonym pydict = "string \<rightharpoonup> string"

text \<open>The keyword arguments of a tool call, as name and value pairs.\<close>

type_synonym args = "(string \<times> string) list"

record tool_call =
  tc_name :: string
  tc_args :: args
  tc_id :: string

text \<open>
  The LangChain message classes the graph meets. Only \<open>AIMessage\<close> has the attribute
  \<open>tool_calls\<close>; \<open>content\<close> is \<open>None\<close> or a string.
\<close>

datatype message =
    AIMessage (content: "string option") (tool_calls: "tool_call list")
  | ToolMessage (content: "string option") (tool_call_id: string)
  | HumanMessage (content: "string option")
  | SystemMessage (content: "string option")

text \<open>
  The state dict threaded through the nodes (\<open>file_text\<close> is the key \<open>file\<close>).
  \<open>invoke\<close> sets every key but \<open>needs_chart\<close>; the nodes still read \<open>iterations\<close>
  and \<open>messages\<close> with a default, so these keys are optional here.
\<close>

record state =
  chat_id :: string
  user_question :: string
  file_text :: "string option"
  iterations :: "int option"
  messages :: "message list option"
  needs_chart :: "bool option"

text \<open>\<open>state.get("iterations", 0)\<close> and \<open>state.get("messages", [])\<close>.\<close>

definition get_iterations :: "state \<Rightarrow> int" where
  "get_iterations s = (case iterations s of None \<Rightarrow> 0 | Some i \<Rightarrow> i)"

definition get_messages :: "state \<Rightarrow> message list" where
  "get_messages s = (case messages s of None \<Rightarrow> [] | Some ms \<Rightarrow> ms)"

text \<open>The fields of a \<open>ChatGraph\<close> instance that the routing reads and writes.\<close>

record chat_graph =
  erros_consecutivos :: int
  max_iterations :: int

section \<open>Routing functions of \<open>ChatGraph\<close>\<close>

datatype route = Action | END

definition image_prefix :: string where
  "image_prefix = ''data:image/png;base64''"

text \<open>\<open>last.content and last.content.startswith("data:image/png;base64")\<close>.\<close>

definition is_image_content :: "message \<Rightarrow> bool" where
  "is_image_content m =
     (case content m of None \<Rightarrow> False | Some c \<Rightarrow> c \<noteq> [] \<and> prefix image_prefix c)"

text \<open>
  \<open>count_errors_consecutivos\<close> updates \<open>self.erros_consecutivos\<close> and returns it: the
  result is the new value together with the updated instance.
\<close>

definition count_errors_consecutivos :: "chat_graph \<Rightarrow> message \<Rightarrow> int \<times> chat_graph" where
  "count_errors_consecutivos self ultima_mensagem =
     (let c = (case content ultima_mensagem of None \<Rightarrow> [] | Some t \<Rightarrow> t);
          self' = (if sublist ''ProgrammingError'' c \<or> sublist ''Unknown column'' c
                   then self\<lparr>erros_consecutivos := erros_consecutivos self + 1\<rparr>
                   else self\<lparr>erros_consecutivos := 0\<rparr>)
      in (erros_consecutivos self', self'))"

definition should_continue :: "chat_graph \<Rightarrow> state \<Rightarrow> route \<times> chat_graph" where
  "should_continue self s =
     (if get_iterations s \<ge> max_iterations self then (END, self)
      else let msgs = get_messages s in
        if msgs = [] then (Action, self)
        else let (n, self') = count_errors_consecutivos self (last msgs) in
          if n > 3 then (END, self')
          else if is_image_content (last msgs) then (END, self')
          else (Action, self'))"

definition should_end_after_environment :: "state \<Rightarrow> route" where
  "should_end_after_environment s =
     (let msgs = get_messages s in
        if msgs = [] then Action
        else if is_image_content (last msgs) then END
        else Action)"

section \<open>Tool execution node\<close>

text \<open>
  What a tool handler returns: a \<open>dict\<close>, or any other value, which the node only passes
  to \<open>str\<close> and which is therefore kept as that string. A handler may raise.
\<close>

datatype observation = ObsDict pydict | ObsOther string

type_synonym tool = "args \<Rightarrow> string + observation"

text \<open>The lines \<open>tool_node\<close> writes to its logger.\<close>

datatype log_entry =
    Log_calling string args
  | Log_not_found string
  | Log_no_tool_calls
  | Log_sending

text \<open>
  \<open>state["messages"][-1].tool_calls\<close> under its \<open>try\<close>: \<open>None\<close> stands for the caught
  \<open>KeyError\<close> (no key \<open>messages\<close>), \<open>IndexError\<close> (empty list) and
  \<open>AttributeError\<close> (the last message is not an \<open>AIMessage\<close>).
\<close>

definition last_msg_tool_calls :: "state \<Rightarrow> tool_call list option" where
  "last_msg_tool_calls s =
     (case messages s of
        None \<Rightarrow> None
      | Some ms \<Rightarrow>
          if ms = [] then None
          else (case last ms of AIMessage c tcs \<Rightarrow> Some tcs | _ \<Rightarrow> None))"

definition erro_grafico :: string where
  "erro_grafico = ''Erro ao gerar gr'' @ [CHR 0xC3, CHR 0xA1] @ ''fico: ''"

text \<open>
  The normalisation of one handler result. \<open>str_dict\<close> is Python's \<open>str\<close> on a
  \<open>dict\<close>, a parameter of the model.
\<close>

definition message_content :: "(pydict \<Rightarrow> string) \<Rightarrow> observation \<Rightarrow> string" where
  "message_content str_dict observacao =
     (case observacao of
        ObsDict d \<Rightarrow>
          (case d ''image'' of
             Some img \<Rightarrow> img
           | None \<Rightarrow>
               (case d ''error'' of
                  Some err \<Rightarrow> erro_grafico @ err
                | None \<Rightarrow> str_dict d))
      | ObsOther t \<Rightarrow> t)"

text \<open>
  The \<open>for\<close> loop over the tool calls, with \<open>resultados\<close> and the log as accumulators.
  An exception of a handler leaves the loop and the node.
\<close>

fun run_tool_calls ::
  "(pydict \<Rightarrow> string) \<Rightarrow> (string \<rightharpoonup> tool) \<Rightarrow> tool_call list \<Rightarrow> message list \<Rightarrow>
   log_entry list \<Rightarrow> log_entry list \<times> (string + message list)" where
  "run_tool_calls str_dict tools_by_name [] resultados lg = (lg @ [Log_sending], Inr resultados)"
| "run_tool_calls str_dict tools_by_name (tc # tcs) resultados lg =
     (let lg1 = lg @ [Log_calling (tc_name tc) (tc_args tc)] in
      case tools_by_name (tc_name tc) of
        None \<Rightarrow>
          run_tool_calls str_dict tools_by_name tcs resultados (lg1 @ [Log_not_found (tc_name tc)])
      | Some t \<Rightarrow>
          (case t (tc_args tc) of
             Inl e \<Rightarrow> (lg1, Inl e)
           | Inr observacao \<Rightarrow>
               run_tool_calls str_dict tools_by_name tcs
                 (resultados @ [ToolMessage (Some (message_content str_dict observacao)) (tc_id tc)])
                 lg1))"

definition tool_node ::
  "(pydict \<Rightarrow> string) \<Rightarrow> (string \<rightharpoonup> tool) \<Rightarrow> state \<Rightarrow> log_entry list \<times> (string + message list)" where
  "tool_node str_dict tools_by_name s =
     (case last_msg_tool_calls s of
        None \<Rightarrow> ([Log_no_tool_calls], Inr [])
      | Some tcs \<Rightarrow> run_tool_calls str_dict tools_by_name tcs [] [])"

section \<open>Nodes of the graph\<close>

text \<open>
  The language model behind \<open>llm_with_tools\<close> is external. Each of its three uses is an
  oracle that may raise: the chart prompt of \<open>llm_call\<close> (built from the state), the generic
  prompt and the structured chart decision (both built from the user question).
\<close>

record llm_client =
  chart_reply :: "state \<Rightarrow> string + message"
  generic_reply :: "string \<Rightarrow> string + message"
  chart_decision :: "string \<Rightarrow> string + bool"

definition determine_chart_needed :: "llm_client \<Rightarrow> state \<Rightarrow> string + state" where
  "determine_chart_needed llm s =
     (case chart_decision llm (user_question s) of
        Inl e \<Rightarrow> Inl e
      | Inr b \<Rightarrow> Inr (s\<lparr>needs_chart := Some b\<rparr>))"

text \<open>\<open>llm_call\<close> returns the dict \<open>{"messages": [resposta]}\<close>, here its one entry.\<close>

definition llm_call :: "llm_client \<Rightarrow> state \<Rightarrow> string + message list" where
  "llm_call llm s = (case chart_reply llm s of Inl e \<Rightarrow> Inl e | Inr resposta \<Rightarrow> Inr [resposta])"

definition llm_call_wrapper :: "llm_client \<Rightarrow> state \<Rightarrow> string + state" where
  "llm_call_wrapper llm s =
     (let s1 = s\<lparr>iterations := Some (get_iterations s + 1)\<rparr> in
      case llm_call llm s1 of
        Inl e \<Rightarrow> Inl e
      | Inr result \<Rightarrow> Inr (s1\<lparr>messages := Some (get_messages s1 @ result)\<rparr>))"

definition generic_llm_call_wrapper :: "llm_client \<Rightarrow> state \<Rightarrow> string + state" where
  "generic_llm_call_wrapper llm s =
     (case generic_reply llm (user_question s) of
        Inl e \<Rightarrow> Inl e
      | Inr response \<Rightarrow> Inr (s\<lparr>messages := Some (get_messages s @ [response])\<rparr>))"

definition tool_node_wrapper ::
  "(pydict \<Rightarrow> string) \<Rightarrow> (string \<rightharpoonup> tool) \<Rightarrow> state \<Rightarrow> string + state" where
  "tool_node_wrapper str_dict tools_by_name s =
     (case snd (tool_node str_dict tools_by_name s) of
        Inl e \<Rightarrow> Inl e
      | Inr result \<Rightarrow> Inr (s\<lparr>messages := Some (get_messages s @ result)\<rparr>))"

section \<open>The workflow and its execution\<close>

text \<open>
  The nodes that \<open>workflow\<close> adds to the graph, and \<open>N_END\<close> for the engine's \<open>END\<close>.
\<close>

datatype node = N_decide_chart | N_llm_call | N_generic_llm | N_environment | N_END

text \<open>
  \<open>workflow\<close> builds \<open>StateGraph(State)\<close>, and \<open>State\<close> declares the keys \<open>chat_id\<close>,
  \<open>user_question\<close>, \<open>file\<close> and \<open>messages\<close> only. The engine keeps one channel per
  declared key: what \<open>invoke\<close> passes in and what a node returns under another key
  (\<open>iterations\<close>, \<open>needs_chart\<close>) is not stored, and the dict a node receives is built from
  the channels. \<open>declared\<close> is the part of a dict that the channels keep. The channel of
  \<open>messages\<close> is taken to hold the list that the last node returned.
\<close>

definition declared :: "state \<Rightarrow> state" where
  "declared s = s\<lparr>iterations := None, needs_chart := None\<rparr>"

text \<open>
  The engine is external. Whether the function of a conditional edge sees, besides the
  channels, the other keys of the dict that its node has just returned is the field
  \<open>branch_passthrough\<close> of the environment.
\<close>

record env =
  llm_with_tools :: llm_client
  str_of_dict :: "pydict \<Rightarrow> string"
  tools_by_name :: "string \<rightharpoonup> tool"
  branch_passthrough :: bool

definition branch_input :: "env \<Rightarrow> state \<Rightarrow> state" where
  "branch_input E returned = (if branch_passthrough E then returned else declared returned)"

text \<open>
  \<open>run_node\<close> runs one node on the dict it receives and follows the edge that \<open>workflow\<close>
  declares for it. The result is the next node, the dict the node returned and the
  instance.
\<close>

fun run_node :: "env \<Rightarrow> node \<Rightarrow> state \<times> chat_graph \<Rightarrow> string + (node \<times> state \<times> chat_graph)" where
  "run_node E N_decide_chart (s, self) =
     (case determine_chart_needed (llm_with_tools E) s of
        Inl e \<Rightarrow> Inl e
      | Inr s' \<Rightarrow>
          Inr (if needs_chart (branch_input E s') = Some True then N_llm_call else N_generic_llm,
               s', self))"
| "run_node E N_llm_call (s, self) =
     (case llm_call_wrapper (llm_with_tools E) s of
        Inl e \<Rightarrow> Inl e
      | Inr s' \<Rightarrow>
          (case should_continue self (branch_input E s') of
             (Action, self') \<Rightarrow> Inr (N_environment, s', self')
           | (END, self') \<Rightarrow> Inr (N_END, s', self')))"
| "run_node E N_environment (s, self) =
     (case tool_node_wrapper (str_of_dict E) (tools_by_name E) s of
        Inl e \<Rightarrow> Inl e
      | Inr s' \<Rightarrow>
          (case should_end_after_environment (branch_input E s') of
             END \<Rightarrow> Inr (N_END, s', self)
           | Action \<Rightarrow> Inr (N_llm_call, s', self)))"
| "run_node E N_generic_llm (s, self) =
     (case generic_llm_call_wrapper (llm_with_tools E) s of
        Inl e \<Rightarrow> Inl e
      | Inr s' \<Rightarrow> Inr (N_END, s', self))"
| "run_node E N_END (s, self) = Inr (N_END, s, self)"

text \<open>
  \<open>graph.invoke\<close> runs node after node until \<open>END\<close>, each on the declared part of what
  came before, and raises \<open>GraphRecursionError\<close> once it has run \<open>limit\<close> nodes without
  reaching \<open>END\<close>. It returns the channels. Besides them the model returns the list of
  the nodes it ran, which the source does not have, to count the visits of a node.
\<close>

definition recursion_text :: string where
  "recursion_text = ''Recursion limit reached without hitting a stop condition''"

fun graph_invoke ::
  "nat \<Rightarrow> env \<Rightarrow> node \<Rightarrow> state \<times> chat_graph \<Rightarrow> exn + ((state \<times> chat_graph) \<times> node list)" where
  "graph_invoke limit E N_END (s, self) = Inr ((declared s, self), [])"
| "graph_invoke 0 E n (s, self) = Inl (GraphRecursionError recursion_text)"
| "graph_invoke (Suc k) E n (s, self) =
     (case run_node E n (declared s, self) of
        Inl e \<Rightarrow> Inl (PyException e)
      | Inr (n', c') \<Rightarrow>
          (case graph_invoke k E n' c' of
             Inl e \<Rightarrow> Inl e
           | Inr (c'', visited) \<Rightarrow> Inr (c'', n # visited)))"

text \<open>
  \<open>ChatGraph.invoke\<close> returns the final state, or on \<open>GraphRecursionError\<close> a dict whose
  \<open>messages\<close> holds one dict, not a message object.
\<close>

datatype invoke_result = Final_state state | Recovered "pydict list"

definition limite_text :: string where
  "limite_text =
     ''O fluxo excedeu o limite de itera'' @ [CHR 0xC3, CHR 0xA7, CHR 0xC3, CHR 0xB5] @ ''es. '' @
     ''Por favor, refine sua consulta ou tente novamente.''"

definition invoke ::
  "nat \<Rightarrow> env \<Rightarrow> chat_graph \<Rightarrow> string \<Rightarrow> string \<Rightarrow> string option \<Rightarrow> exn + invoke_result" where
  "invoke limit E self cid question fl =
     (let st = \<lparr>chat_id = cid, user_question = question, file_text = fl,
                iterations = Some 0, messages = Some [], needs_chart = None\<rparr> in
      case graph_invoke limit E N_decide_chart (st, self) of
        Inr ((s, self'), visited) \<Rightarrow> Inr (Final_state s)
      | Inl (GraphRecursionError e) \<Rightarrow>
          Inr (Recovered [[''sender'' \<mapsto> ''agent'', ''content'' \<mapsto> limite_text]])
      | Inl (PyException e) \<Rightarrow> Inl (PyException e))"

section \<open>Chart tools: column classification\<close>

text \<open>
  A \<open>DataFrame\<close> is the list of its columns in order, each a label and its cells. Labels
  may repeat, as the keys of a query result may. The type of the cells is left open.
\<close>

type_synonym 'c dataframe = "(string \<times> 'c list) list"

definition columns :: "'c dataframe \<Rightarrow> string list" where
  "columns df = map fst df"

text \<open>
  \<open>df.empty\<close>: no column or no row. \<open>df[col]\<close>: the columns labelled \<open>col\<close>, a
  \<open>Series\<close> when there is exactly one and a \<open>DataFrame\<close> otherwise.
\<close>

definition n_rows :: "'c dataframe \<Rightarrow> nat" where
  "n_rows df = (case df of [] \<Rightarrow> 0 | (label, cells) # rest \<Rightarrow> length cells)"

definition df_empty :: "'c dataframe \<Rightarrow> bool" where
  "df_empty df = (df = [] \<or> n_rows df = 0)"

definition getitem :: "'c dataframe \<Rightarrow> string \<Rightarrow> 'c list list" where
  "getitem df col = map snd (filter (\<lambda>c. fst c = col) df)"

text \<open>
  \<open>pd.to_numeric(..., errors='coerce')\<close>. What pandas does with one cell is the parameter
  \<open>coerce\<close>: a number, \<open>None\<close> for \<open>NaN\<close> (the cell does not parse or is missing), or an
  exception. On anything but a \<open>Series\<close> pandas raises \<open>TypeError\<close>.
\<close>

fun coerce_cells :: "('c \<Rightarrow> string + 'n option) \<Rightarrow> 'c list \<Rightarrow> string + 'n option list" where
  "coerce_cells coerce [] = Inr []"
| "coerce_cells coerce (x # xs) =
     (case coerce x of
        Inl e \<Rightarrow> Inl e
      | Inr v \<Rightarrow> (case coerce_cells coerce xs of Inl e \<Rightarrow> Inl e | Inr vs \<Rightarrow> Inr (v # vs)))"

definition to_numeric :: "('c \<Rightarrow> string + 'n option) \<Rightarrow> 'c list list \<Rightarrow> string + 'n option list" where
  "to_numeric coerce selection =
     (case selection of
        [cells] \<Rightarrow> coerce_cells coerce cells
      | _ \<Rightarrow> Inl ''arg must be a list, tuple, 1-d array, or Series'')"

text \<open>\<open>converted.isna().sum()\<close>.\<close>

definition isna_sum :: "'n option list \<Rightarrow> nat" where
  "isna_sum converted = length (filter (\<lambda>v. v = None) converted)"

text \<open>
  \<open>not_na_ratio = 1 - (converted.isna().sum() / len(converted))\<close> and the test
  \<open>not_na_ratio >= 0.8\<close>, in exact rational arithmetic. For a column without rows numpy
  divides zero by zero, the ratio is \<open>nan\<close> and the comparison is false.
\<close>

definition not_na_ratio :: "'n option list \<Rightarrow> rat option" where
  "not_na_ratio converted =
     (if length converted = 0 then None
      else Some (1 - of_nat (isna_sum converted) / of_nat (length converted)))"

definition ratio_ge_08 :: "rat option \<Rightarrow> bool" where
  "ratio_ge_08 r = (case r of None \<Rightarrow> False | Some q \<Rightarrow> q \<ge> 8 / 10)"

text \<open>The loop of \<open>classify_columns\<close> over \<open>df.columns\<close>, both lists as accumulators.\<close>

fun classify_loop ::
  "('c \<Rightarrow> string + 'n option) \<Rightarrow> 'c dataframe \<Rightarrow> string list \<Rightarrow> string list \<times> string list \<Rightarrow>
   string list \<times> string list" where
  "classify_loop coerce df [] (numeric_cols, cat_cols) = (numeric_cols, cat_cols)"
| "classify_loop coerce df (col # cols) (numeric_cols, cat_cols) =
     (case to_numeric coerce (getitem df col) of
        Inl e \<Rightarrow> classify_loop coerce df cols (numeric_cols, cat_cols @ [col])
      | Inr converted \<Rightarrow>
          if ratio_ge_08 (not_na_ratio converted)
          then classify_loop coerce df cols (numeric_cols @ [col], cat_cols)
          else classify_loop coerce df cols (numeric_cols, cat_cols @ [col]))"

definition classify_columns ::
  "('c \<Rightarrow> string + 'n option) \<Rightarrow> 'c dataframe \<Rightarrow> string list \<times> string list" where
  "classify_columns coerce df = classify_loop coerce df (columns df) ([], [])"

section \<open>Chart tools: \<open>consult_database\<close>\<close>

text \<open>\<open>str\<close> of a natural number and of an integer, in decimal.\<close>

definition digit_char :: "nat \<Rightarrow> char" where
  "digit_char d = ''0123456789'' ! d"

fun str_nat :: "nat \<Rightarrow> string" where
  "str_nat n = (if n < 10 then [digit_char n] else str_nat (n div 10) @ [digit_char (n mod 10)])"

definition str_int :: "int \<Rightarrow> string" where
  "str_int i = (if i < 0 then ''-'' @ str_nat (nat (- i)) else str_nat (nat i))"

text \<open>\<open>"\n".join(rows)\<close>.\<close>

fun join_lines :: "string list \<Rightarrow> string" where
  "join_lines [] = []"
| "join_lines [r] = r"
| "join_lines (r # rs) = r @ [CHR 0x0A] @ join_lines rs"

text \<open>
  What \<open>db.execute\<close> gives \<open>consult_database\<close>: the rows, each as its \<open>str\<close>, when the
  statement returns rows, and the row count otherwise.
\<close>

datatype query_result = Rows "string list" | Rowcount int

definition forbidden :: "string list" where
  "forbidden = [''DELETE'', ''ALTER'', ''CREATE'', ''DROP'', ''UPDATE'', ''INSERT'', ''TRUNCATE'',
     ''REPLACE'']"

definition apenas_leitura :: string where
  "apenas_leitura =
     [CHR 0xE2, CHR 0x9D, CHR 0x8C] @ '' Apenas consultas de leitura s'' @ [CHR 0xC3, CHR 0xA3] @
     ''o permitidas.''"

definition erro_consulta :: string where
  "erro_consulta =
     [CHR 0xE2, CHR 0x9A, CHR 0xA0, CHR 0xEF, CHR 0xB8, CHR 0x8F] @ '' Erro ao executar consulta: ''"

definition linhas_afetadas :: string where
  "linhas_afetadas =
     [CHR 0xE2, CHR 0x84, CHR 0xB9, CHR 0xEF, CHR 0xB8, CHR 0x8F] @ '' Linhas afetadas: ''"

text \<open>
  \<open>consult_database\<close> returns its answer and, as a second component that the source does
  not have, the statements it has sent to \<open>db.execute\<close>. The session is opened before the
  \<open>try\<close> and closed in its \<open>finally\<close>; neither is modelled. Python's \<open>str.upper\<close>,
  which maps the cased letters of all of Unicode, is the parameter \<open>upper\<close>.
\<close>

definition consult_database ::
  "(string \<Rightarrow> string) \<Rightarrow> (string \<Rightarrow> string + query_result) \<Rightarrow> string \<Rightarrow>
   string \<times> string list" where
  "consult_database upper execute query =
     (if list_ex (\<lambda>cmd. sublist cmd (upper query)) forbidden then (apenas_leitura, [])
      else (case execute query of
              Inl e \<Rightarrow> (erro_consulta @ e, [query])
            | Inr (Rows rs) \<Rightarrow> (join_lines rs, [query])
            | Inr (Rowcount n) \<Rightarrow> (linhas_afetadas @ str_int n, [query])))"

section \<open>Chart tools: \<open>generate_chart\<close>\<close>

text \<open>The accented letters of the messages, in UTF-8.\<close>

definition a_acute :: string where "a_acute = [CHR 0xC3, CHR 0xA1]"
definition a_tilde :: string where "a_tilde = [CHR 0xC3, CHR 0xA3]"
definition e_acute :: string where "e_acute = [CHR 0xC3, CHR 0xA9]"
definition i_acute :: string where "i_acute = [CHR 0xC3, CHR 0xAD]"
definition o_acute :: string where "o_acute = [CHR 0xC3, CHR 0xB3]"
definition o_circ :: string where "o_circ = [CHR 0xC3, CHR 0xB4]"

definition nenhum_dado :: string where
  "nenhum_dado = ''Nenhum dado encontrado pela consulta.''"

definition erro_pizza :: string where
  "erro_pizza =
     ''Para gr'' @ a_acute @ ''fico de pizza, '' @ e_acute @ '' necess'' @ a_acute @
     ''rio pelo menos 1 coluna categ'' @ o_acute @ ''rica e 1 num'' @ e_acute @ ''rica.''"

definition erro_coluna :: "string \<Rightarrow> string" where
  "erro_coluna measure_col =
     ''A coluna '' @ [CHR 0x27] @ measure_col @ [CHR 0x27] @ '' n'' @ a_tilde @ ''o p'' @ o_circ @
     ''de ser interpretada como num'' @ e_acute @ ''rica.''"

definition erro_colunas :: "string \<Rightarrow> nat \<Rightarrow> nat \<Rightarrow> string" where
  "erro_colunas chart_type n_cat n_num =
     ''N'' @ a_tilde @ ''o foi poss'' @ i_acute @ ''vel gerar gr'' @ a_acute @ ''fico '' @
     [CHR 0x27] @ chart_type @ [CHR 0x27] @ '' com '' @ str_nat n_cat @ '' colunas categ'' @
     o_acute @ ''ricas e '' @ str_nat n_num @ '' colunas num'' @ e_acute @ ''ricas.''"

definition erro_scatter :: string where
  "erro_scatter = ''Scatter requer pelo menos 2 colunas num'' @ e_acute @ ''ricas (para X e Y).''"

definition erro_heatmap :: string where
  "erro_heatmap =
     ''Heatmap requer pelo menos 2 colunas categ'' @ o_acute @ ''ricas e 1 coluna num'' @
     e_acute @ ''rica.''"

definition erro_tipo :: "string \<Rightarrow> string" where
  "erro_tipo chart_type =
     ''Tipo de gr'' @ a_acute @ ''fico '' @ [CHR 0x27] @ chart_type @ [CHR 0x27] @ '' n'' @
     a_tilde @ ''o reconhecido. Use: bar, line, pie, scatter, heatmap.''"

definition sucesso :: "string \<Rightarrow> string" where
  "sucesso chart_type =
     ''Gr'' @ a_acute @ ''fico '' @ [CHR 0x27] @ chart_type @ [CHR 0x27] @ '' gerado com sucesso.''"

text \<open>
  What a branch of \<open>generate_chart\<close> asks matplotlib to draw, with the columns it has
  picked: pie (measure, category), bar or line over the row index, bar or line over one
  category column, bar or line over a pivot (two categories, measure), scatter (x, y and the
  colour column if there is a third numeric column), heatmap (two categories, measure).
\<close>

datatype plot =
    Pie string string
  | Index_plot
  | Category_plot string "string list"
  | Pivot_plot string string string
  | Scatter string string "string option"
  | Heatmap string string string

text \<open>
  The dispatch on \<open>chart_type\<close>: a branch returns an error dict at once (\<open>Inl\<close>) or goes
  on to draw its plot (\<open>Inr\<close>). In the pie branch the second \<open>pd.to_numeric\<close> may raise.
\<close>

definition select_plot ::
  "('c \<Rightarrow> string + 'n option) \<Rightarrow> 'c dataframe \<Rightarrow> string list \<Rightarrow> string list \<Rightarrow> string \<Rightarrow>
   string + (pydict + plot)" where
  "select_plot coerce df numeric_cols cat_cols chart_type =
     (if chart_type = ''pie'' then
        if length cat_cols < 1 \<or> length numeric_cols < 1
        then Inr (Inl [''error'' \<mapsto> erro_pizza])
        else
          let cat_col = cat_cols ! 0; measure_col = numeric_cols ! 0 in
          (case to_numeric coerce (getitem df measure_col) of
             Inl e \<Rightarrow> Inl e
           | Inr converted \<Rightarrow>
               if list_all (\<lambda>v. v = None) converted
               then Inr (Inl [''error'' \<mapsto> erro_coluna measure_col])
               else Inr (Inr (Pie measure_col cat_col)))
      else if chart_type = ''bar'' \<or> chart_type = ''line'' then
        if length cat_cols = 0 \<and> length numeric_cols \<ge> 1 then Inr (Inr Index_plot)
        else if length cat_cols = 1 \<and> length numeric_cols \<ge> 1
        then Inr (Inr (Category_plot (cat_cols ! 0) numeric_cols))
        else if length cat_cols \<ge> 2 \<and> length numeric_cols \<ge> 1
        then Inr (Inr (Pivot_plot (cat_cols ! 0) (cat_cols ! 1) (numeric_cols ! 0)))
        else Inr (Inl [''error'' \<mapsto>
                       erro_colunas chart_type (length cat_cols) (length numeric_cols)])
      else if chart_type = ''scatter'' then
        if length numeric_cols < 2 then Inr (Inl [''error'' \<mapsto> erro_scatter])
        else Inr (Inr (Scatter (numeric_cols ! 0) (numeric_cols ! 1)
                        (if length numeric_cols \<ge> 3 then Some (numeric_cols ! 2) else None)))
      else if chart_type = ''heatmap'' then
        if length cat_cols < 2 \<or> length numeric_cols < 1
        then Inr (Inl [''error'' \<mapsto> erro_heatmap])
        else Inr (Inr (Heatmap (cat_cols ! 0) (cat_cols ! 1) (numeric_cols ! 0)))
      else Inr (Inl [''error'' \<mapsto> erro_tipo chart_type]))"

text \<open>
  The \<open>try\<close> block of \<open>generate_chart\<close>. The collaborators are parameters, each may raise:
  \<open>execute\<close> runs the query and builds the \<open>DataFrame\<close>, \<open>figure\<close> is \<open>plt.figure\<close>,
  and \<open>render\<close> stands for the drawing calls of the chosen branch up to the Base64 text of
  the saved figure (titles and label rotation are its business).
\<close>

definition generate_chart_try ::
  "(string \<Rightarrow> string + 'c dataframe) \<Rightarrow> ('c \<Rightarrow> string + 'n option) \<Rightarrow> string + unit \<Rightarrow>
   ('c dataframe \<Rightarrow> plot \<Rightarrow> string \<Rightarrow> string \<Rightarrow> string + string) \<Rightarrow>
   string \<Rightarrow> string \<Rightarrow> string \<Rightarrow> string + pydict" where
  "generate_chart_try execute coerce figure render query chart_type title =
     (case execute query of
        Inl e \<Rightarrow> Inl e
      | Inr df \<Rightarrow>
          if df_empty df then Inr [''error'' \<mapsto> nenhum_dado]
          else
            let (numeric_cols, cat_cols) = classify_columns coerce df in
            (case figure of
               Inl e \<Rightarrow> Inl e
             | Inr u \<Rightarrow>
                 (case select_plot coerce df numeric_cols cat_cols chart_type of
                    Inl e \<Rightarrow> Inl e
                  | Inr (Inl d) \<Rightarrow> Inr d
                  | Inr (Inr p) \<Rightarrow>
                      (case render df p chart_type title of
                         Inl e \<Rightarrow> Inl e
                       | Inr img_base64 \<Rightarrow>
                           Inr [''image'' \<mapsto> ''data:image/png;base64,'' @ img_base64,
                                ''message'' \<mapsto> sucesso chart_type]))))"

text \<open>
  \<open>generate_chart\<close>: the \<open>try\<close> block under \<open>except Exception as e: return {"error":
  str(e)}\<close>. The session is opened before the \<open>try\<close> by a factory that the module
  \<open>database\<close> sets up when it is loaded, and closed in the \<open>finally\<close>; neither is modelled.
\<close>

definition generate_chart ::
  "(string \<Rightarrow> string + 'c dataframe) \<Rightarrow> ('c \<Rightarrow> string + 'n option) \<Rightarrow> string + unit \<Rightarrow>
   ('c dataframe \<Rightarrow> plot \<Rightarrow> string \<Rightarrow> string \<Rightarrow> string + string) \<Rightarrow>
   string \<Rightarrow> string \<Rightarrow> string \<Rightarrow> string + pydict" where
  "generate_chart execute coerce figure render query chart_type title =
     (case generate_chart_try execute coerce figure render query chart_type title of
        Inl e \<Rightarrow> Inr [''error'' \<mapsto> e]
      | Inr d \<Rightarrow> Inr d)"

section \<open>Notions used to state the properties\<close>

text \<open>The test of \<open>count_errors_consecutivos\<close> on the content of a message.\<close>

definition error_signature :: "message \<Rightarrow> bool" where
  "error_signature m =
     (let c = (case content m of None \<Rightarrow> [] | Some t \<Rightarrow> t)
      in sublist ''ProgrammingError'' c \<or> sublist ''Unknown column'' c)"

section \<open>Example inputs\<close>

text \<open>
  A \<open>ChatGraph()\<close> as the controllers build it, a model that asks for \<open>show_tables\<close> on
  every turn, and the state with which \<open>invoke\<close> starts the chart path.
\<close>

definition demo_graph :: chat_graph where
  "demo_graph = \<lparr>erros_consecutivos = 0, max_iterations = 5\<rparr>"

definition demo_llm :: llm_client where
  "demo_llm =
     \<lparr>chart_reply = (\<lambda>s. Inr (AIMessage (Some [])
        [\<lparr>tc_name = ''show_tables'', tc_args = [], tc_id = ''call_1''\<rparr>])),
      generic_reply = (\<lambda>q. Inr (AIMessage (Some ''ok'') [])),
      chart_decision = (\<lambda>q. Inr True)\<rparr>"

definition demo_env :: env where
  "demo_env =
     \<lparr>llm_with_tools = demo_llm, str_of_dict = (\<lambda>d. ''{}''),
      tools_by_name = [''show_tables'' \<mapsto> (\<lambda>a. Inr (ObsOther ''chats''))],
      branch_passthrough = True\<rparr>"

definition demo_start :: state where
  "demo_start =
     \<lparr>chat_id = ''1'', user_question = ''plot'', file_text = None, iterations = Some 0,
      messages = Some [], needs_chart = Some True\<rparr>"

text \<open>
  A model that asks for \<open>show_tables\<close> on its first six turns and returns an image on the
  seventh, the number of visits of the chart LLM node in a run that reaches \<open>END\<close>, and
  whether \<open>invoke\<close> has returned its recovery message.
\<close>

definition late_image_llm :: llm_client where
  "late_image_llm =
     \<lparr>chart_reply = (\<lambda>s. if length (get_messages s) < 12
        then Inr (AIMessage (Some [])
          [\<lparr>tc_name = ''show_tables'', tc_args = [], tc_id = ''call_1''\<rparr>])
        else Inr (AIMessage (Some ''data:image/png;base64,iVBORw0KGgo='') [])),
      generic_reply = (\<lambda>q. Inr (AIMessage (Some ''ok'') [])),
      chart_decision = (\<lambda>q. Inr True)\<rparr>"

definition llm_visits :: "exn + ((state \<times> chat_graph) \<times> node list) \<Rightarrow> nat option" where
  "llm_visits r = (case r of Inl e \<Rightarrow> None | Inr (c, visited) \<Rightarrow> Some (count_list visited N_llm_call))"

definition is_recovered :: "exn + invoke_result \<Rightarrow> bool" where
  "is_recovered r = (case r of Inr (Recovered ms) \<Rightarrow> True | _ \<Rightarrow> False)"

text \<open>States after one visit of the chart LLM node, by the last message.\<close>

definition state_with :: "int \<Rightarrow> message \<Rightarrow> state" where
  "state_with i m =
     \<lparr>chat_id = ''1'', user_question = ''plot'', file_text = None, iterations = Some i,
      messages = Some [m], needs_chart = Some True\<rparr>"

definition error_reply :: message where
  "error_reply = AIMessage (Some ''(pymysql.err.ProgrammingError) (1064, ...)'') []"

definition plain_reply :: message where
  "plain_reply = AIMessage (Some ''SELECT 1'') []"

definition image_reply :: message where
  "image_reply = ToolMessage (Some ''data:image/png;base64,iVBORw0KGgo='') ''call_1''"

text \<open>
  For the tool node: whether a call names a registered tool, what its handler returns, and
  the message the node builds from a handler result.
\<close>

definition registered :: "(string \<rightharpoonup> tool) \<Rightarrow> tool_call \<Rightarrow> bool" where
  "registered tools tc = (tools (tc_name tc) \<noteq> None)"

definition handler_result :: "(string \<rightharpoonup> tool) \<Rightarrow> tool_call \<Rightarrow> string + observation" where
  "handler_result tools tc =
     (case tools (tc_name tc) of None \<Rightarrow> Inl ''not registered'' | Some t \<Rightarrow> t (tc_args tc))"

definition tool_message :: "(pydict \<Rightarrow> string) \<Rightarrow> observation \<Rightarrow> tool_call \<Rightarrow> message" where
  "tool_message str_dict observacao tc =
     ToolMessage (Some (message_content str_dict observacao)) (tc_id tc)"

definition not_found_entries :: "log_entry list \<Rightarrow> string list" where
  "not_found_entries lg = concat (map (\<lambda>e. case e of Log_not_found n \<Rightarrow> [n] | _ \<Rightarrow> []) lg)"

text \<open>
  A turn of the model with three tool calls, the second to a tool that is not registered,
  and handlers that return an image dict, an error dict, another dict and a string.
\<close>

definition demo_tools :: "string \<rightharpoonup> tool" where
  "demo_tools =
     [''generate_chart'' \<mapsto> (\<lambda>a. if a = [] then Inr (ObsDict [''error'' \<mapsto> ''sem dados''])
         else Inr (ObsDict [''image'' \<mapsto> ''data:image/png;base64,AAAA'', ''message'' \<mapsto> ''ok''])),
      ''show_tables'' \<mapsto> (\<lambda>a. Inr (ObsOther ''chats''))]"

definition demo_calls :: "tool_call list" where
  "demo_calls =
     [\<lparr>tc_name = ''generate_chart'', tc_args = [(''query'', ''SELECT 1'')], tc_id = ''c1''\<rparr>,
      \<lparr>tc_name = ''drop_tables'', tc_args = [], tc_id = ''c2''\<rparr>,
      \<lparr>tc_name = ''generate_chart'', tc_args = [], tc_id = ''c3''\<rparr>,
      \<lparr>tc_name = ''show_tables'', tc_args = [], tc_id = ''c4''\<rparr>]"

definition demo_observation :: "tool_call \<Rightarrow> observation" where
  "demo_observation tc =
     (if tc_id tc = ''c1''
      then ObsDict [''image'' \<mapsto> ''data:image/png;base64,AAAA'', ''message'' \<mapsto> ''ok'']
      else if tc_id tc = ''c3'' then ObsDict [''error'' \<mapsto> ''sem dados'']
      else ObsOther ''chats'')"

text \<open>
  For the chart tools: cells of a query result and a coercion in the manner of pandas (an
  integer is a number, text that does not parse and \<open>NULL\<close> become \<open>NaN\<close>, and an
  object that pandas cannot handle raises), a drawing library that always succeeds, and
  some query results.
\<close>

datatype cell = Int_cell int | Text_cell string | Null_cell | Object_cell

fun demo_coerce :: "cell \<Rightarrow> string + int option" where
  "demo_coerce (Int_cell i) = Inr (Some i)"
| "demo_coerce (Text_cell t) = Inr None"
| "demo_coerce Null_cell = Inr None"
| "demo_coerce Object_cell = Inl ''Invalid object type''"

definition demo_render :: "cell dataframe \<Rightarrow> plot \<Rightarrow> string \<Rightarrow> string \<Rightarrow> string + string" where
  "demo_render df p chart_type title = Inr ''iVBORw0KGgo=''"

definition only_x :: "cell dataframe" where
  "only_x = [(''x'', [Int_cell 1, Int_cell 2])]"

definition category_value :: "cell dataframe" where
  "category_value =
     [(''category'', [Text_cell ''A'', Text_cell ''B'']), (''value'', [Int_cell 10, Int_cell 20])]"

definition three_numeric :: "cell dataframe" where
  "three_numeric =
     [(''x'', [Int_cell 1, Int_cell 2]), (''y'', [Int_cell 3, Int_cell 4]),
      (''z'', [Int_cell 5, Int_cell 6])]"

definition only_name :: "cell dataframe" where
  "only_name = [(''name'', [Text_cell ''A'', Text_cell ''B''])]"

text \<open>The column mixes that a chart type does not accept.\<close>

definition violates :: "string \<Rightarrow> nat \<Rightarrow> nat \<Rightarrow> bool" where
  "violates chart_type n_cat n_num =
     ((chart_type = ''pie'' \<and> (n_cat < 1 \<or> n_num < 1)) \<or>
      (chart_type = ''scatter'' \<and> n_num < 2) \<or>
      (chart_type = ''heatmap'' \<and> (n_cat < 2 \<or> n_num < 1)) \<or>
      ((chart_type = ''bar'' \<or> chart_type = ''line'') \<and>
         \<not> (n_cat = 0 \<and> n_num \<ge> 1) \<and> \<not> (n_cat = 1 \<and> n_num \<ge> 1) \<and>
         \<not> (n_cat \<ge> 2 \<and> n_num \<ge> 1)))"

text \<open>
  Two functions for \<open>str.upper\<close>: one that maps the letters of ASCII and leaves every other
  byte, and one that also maps the dotless i (U+0131, in UTF-8 the bytes C4 B1) to \<open>I\<close>, as
  Python does; and a query with that letter.
\<close>

definition char_upper :: "char \<Rightarrow> char" where
  "char_upper c =
     (case map_of (zip ''abcdefghijklmnopqrstuvwxyz'' ''ABCDEFGHIJKLMNOPQRSTUVWXYZ'') c of
        Some u \<Rightarrow> u
      | None \<Rightarrow> c)"

definition ascii_upper :: "string \<Rightarrow> string" where
  "ascii_upper t = map char_upper t"

fun dotless_upper :: "string \<Rightarrow> string" where
  "dotless_upper [] = []"
| "dotless_upper [a] = [char_upper a]"
| "dotless_upper (a # b # t) =
     (if a = CHR 0xC4 \<and> b = CHR 0xB1 then CHR ''I'' # dotless_upper t
      else char_upper a # dotless_upper (b # t))"

definition dotless_query :: string where
  "dotless_query = ''SELECT '' @ [CHR 0xC4, CHR 0xB1] @ ''nsert_date FROM t''"

text \<open>A query that returns a fixed result, and the two keys of an outcome dict.\<close>

definition demo_execute :: "cell dataframe \<Rightarrow> string \<Rightarrow> string + cell dataframe" where
  "demo_execute df query = Inr df"

definition error_of :: "string + pydict \<Rightarrow> string option" where
  "error_of r = (case r of Inl e \<Rightarrow> None | Inr d \<Rightarrow> d ''error'')"

definition image_of :: "string + pydict \<Rightarrow> string option" where
  "image_of r = (case r of Inl e \<Rightarrow> None | Inr d \<Rightarrow> d ''image'')"

section \<open>The iteration counter and the routing\<close>

lemma llm_call_wrapper_iterations:
  "llm_call_wrapper llm s = Inr s' \<Longrightarrow> get_iterations s' = get_iterations s + 1"
  by (auto simp: llm_call_wrapper_def llm_call_def Let_def get_iterations_def split: sum.splits)

lemma should_continue_limit:
  "max_iterations self \<le> get_iterations s \<Longrightarrow> fst (should_continue self s) = END"
  by (simp add: should_continue_def)

lemma should_continue_max:
  "should_continue self s = (r, self') \<Longrightarrow> max_iterations self' = max_iterations self"
  by (auto simp: should_continue_def count_errors_consecutivos_def Let_def
      split: if_splits prod.splits)

lemma should_continue_Action:
  "should_continue self s = (Action, self') \<Longrightarrow> get_iterations s < max_iterations self"
  by (auto simp: should_continue_def Let_def split: if_splits prod.splits)

lemma tool_node_wrapper_iterations:
  "tool_node_wrapper sd tb s = Inr s' \<Longrightarrow> get_iterations s' = get_iterations s"
  by (auto simp: tool_node_wrapper_def get_iterations_def split: sum.splits)

text \<open>
  What the engine hands to a node has no key \<open>iterations\<close>: the node reads the default
  and stores one, on every visit.
\<close>

lemma get_iterations_declared: "get_iterations (declared s) = 0"
  by (simp add: get_iterations_def declared_def)

lemma llm_call_wrapper_declared:
  "llm_call_wrapper llm (declared s) = Inr s' \<Longrightarrow> iterations s' = Some 1"
  by (auto simp: llm_call_wrapper_def llm_call_def Let_def get_iterations_def declared_def
      split: sum.splits)

text \<open>
  C1. Function by function the counter works: \<open>llm_call_wrapper\<close> adds one to the
  \<open>iterations\<close> of the dict it receives and \<open>should_continue\<close> returns \<open>END\<close> when
  \<open>iterations\<close> has reached \<open>max_iterations\<close> (the lemmas above). In a run of the graph
  the ceiling does not hold, because \<open>State\<close> does not declare \<open>iterations\<close>: with
  \<open>max_iterations = 5\<close> and a model that asks for a tool on every turn, the chart loop runs
  until the engine raises \<open>GraphRecursionError\<close> at its limit of 25 steps, whether or not
  the router sees the keys its node returned, and \<open>invoke\<close> answers with the recovery
  message; with a model that returns an image on its seventh turn the chart LLM node is
  visited seven times; and a visit that follows a dict with \<open>iterations = 4\<close> stores
  \<open>iterations = 1\<close>.
\<close>

theorem chart_loop_runs_past_ceiling:
  "max_iterations demo_graph = 5 \<and>
   graph_invoke 25 demo_env N_llm_call (demo_start, demo_graph) =
     Inl (GraphRecursionError recursion_text) \<and>
   graph_invoke 25 (demo_env\<lparr>branch_passthrough := False\<rparr>) N_llm_call (demo_start, demo_graph) =
     Inl (GraphRecursionError recursion_text) \<and>
   is_recovered (invoke 25 demo_env demo_graph ''1'' ''plot'' None) \<and>
   llm_visits (graph_invoke 25 (demo_env\<lparr>llm_with_tools := late_image_llm\<rparr>) N_llm_call
     (demo_start, demo_graph)) = Some 7 \<and>
   map_sum id iterations (llm_call_wrapper demo_llm (declared (state_with 4 plain_reply))) =
     Inr (Some 1)"
  by code_simp

section \<open>The streak of database errors\<close>

lemma count_errors_val:
  "count_errors_consecutivos self m =
     (if error_signature m then (erros_consecutivos self + 1, self\<lparr>erros_consecutivos := erros_consecutivos self + 1\<rparr>)
      else (0, self\<lparr>erros_consecutivos := 0\<rparr>))"
  by (simp add: count_errors_consecutivos_def error_signature_def Let_def)

lemma should_continue_below_limit:
  assumes "get_iterations s < max_iterations self" and "get_messages s \<noteq> []"
  shows "should_continue self s =
     (let m = last (get_messages s);
          k = (if error_signature m then erros_consecutivos self + 1 else 0)
      in (if k > 3 \<or> is_image_content m then END else Action, self\<lparr>erros_consecutivos := k\<rparr>))"
  using assms by (simp add: should_continue_def count_errors_val Let_def)

text \<open>
  C2, as amended. When \<open>iterations\<close> is below \<open>max_iterations\<close>, \<open>should_continue\<close>
  on a non-empty message list adds one to the streak if the content of the last message
  contains \<open>ProgrammingError\<close> or \<open>Unknown column\<close> and sets it to zero otherwise, and it
  returns \<open>END\<close> whenever the new streak exceeds 3. From a streak of zero, four checks in a
  row on messages with an error signature bring the streak to 1, 2, 3 and 4, and the fourth
  check returns \<open>END\<close>.
\<close>

theorem error_streak_below_iteration_limit:
  assumes "get_iterations s < max_iterations self" and "get_messages s \<noteq> []"
  shows "(error_signature (last (get_messages s)) \<longrightarrow>
            erros_consecutivos (snd (should_continue self s)) = erros_consecutivos self + 1) \<and>
         (\<not> error_signature (last (get_messages s)) \<longrightarrow>
            erros_consecutivos (snd (should_continue self s)) = 0) \<and>
         (erros_consecutivos (snd (should_continue self s)) > 3 \<longrightarrow>
            fst (should_continue self s) = END) \<and>
         (\<forall>s2 s3 s4.
            erros_consecutivos self = 0 \<and> error_signature (last (get_messages s)) \<and>
            (\<forall>x \<in> {s2, s3, s4}. get_iterations x < max_iterations self \<and> get_messages x \<noteq> [] \<and>
               error_signature (last (get_messages x))) \<longrightarrow>
            erros_consecutivos (snd (should_continue self s)) = 1 \<and>
            erros_consecutivos (snd (should_continue (snd (should_continue self s)) s2)) = 2 \<and>
            erros_consecutivos (snd (should_continue (snd (should_continue
               (snd (should_continue self s)) s2)) s3)) = 3 \<and>
            should_continue (snd (should_continue (snd (should_continue
               (snd (should_continue self s)) s2)) s3)) s4 = (END, self\<lparr>erros_consecutivos := 4\<rparr>))"
proof (intro conjI allI impI)
  assume "error_signature (last (get_messages s))"
  then show "erros_consecutivos (snd (should_continue self s)) = erros_consecutivos self + 1"
    by (simp add: should_continue_below_limit[OF assms] Let_def)
next
  assume "\<not> error_signature (last (get_messages s))"
  then show "erros_consecutivos (snd (should_continue self s)) = 0"
    by (simp add: should_continue_below_limit[OF assms] Let_def)
next
  assume "erros_consecutivos (snd (should_continue self s)) > 3"
  then show "fst (should_continue self s) = END"
    by (simp add: should_continue_below_limit[OF assms] Let_def split: if_splits)
next
  fix s2 s3 s4
  assume a: "erros_consecutivos self = 0 \<and> error_signature (last (get_messages s)) \<and>
            (\<forall>x \<in> {s2, s3, s4}. get_iterations x < max_iterations self \<and> get_messages x \<noteq> [] \<and>
               error_signature (last (get_messages x)))"
  define g1 where "g1 = snd (should_continue self s)"
  define g2 where "g2 = snd (should_continue g1 s2)"
  define g3 where "g3 = snd (should_continue g2 s3)"
  have g1: "g1 = self\<lparr>erros_consecutivos := 1\<rparr>"
    using a by (simp add: g1_def should_continue_below_limit[OF assms] Let_def)
  have h2: "get_iterations s2 < max_iterations g1" "get_messages s2 \<noteq> []" using a g1 by auto
  have "snd (should_continue g1 s2) = g1\<lparr>erros_consecutivos := erros_consecutivos g1 + 1\<rparr>"
    using a by (simp add: should_continue_below_limit[OF h2] Let_def)
  then have g2: "g2 = self\<lparr>erros_consecutivos := 2\<rparr>"
    by (simp add: g2_def g1)
  have h3: "get_iterations s3 < max_iterations g2" "get_messages s3 \<noteq> []" using a g2 by auto
  have "snd (should_continue g2 s3) = g2\<lparr>erros_consecutivos := erros_consecutivos g2 + 1\<rparr>"
    using a by (simp add: should_continue_below_limit[OF h3] Let_def)
  then have g3: "g3 = self\<lparr>erros_consecutivos := 3\<rparr>"
    by (simp add: g3_def g2)
  have h4: "get_iterations s4 < max_iterations g3" "get_messages s4 \<noteq> []" using a g3 by auto
  have "should_continue g3 s4 =
    (if erros_consecutivos g3 + 1 > 3 \<or> is_image_content (last (get_messages s4)) then END else Action,
     g3\<lparr>erros_consecutivos := erros_consecutivos g3 + 1\<rparr>)"
    using a by (simp add: should_continue_below_limit[OF h4] Let_def)
  then have r4: "should_continue g3 s4 = (END, self\<lparr>erros_consecutivos := 4\<rparr>)"
    by (simp add: g3)
  show "erros_consecutivos (snd (should_continue self s)) = 1" using g1 by (simp add: g1_def)
  show "erros_consecutivos (snd (should_continue (snd (should_continue self s)) s2)) = 2"
    using g2 by (simp add: g2_def g1_def)
  show "erros_consecutivos (snd (should_continue (snd (should_continue
               (snd (should_continue self s)) s2)) s3)) = 3"
    using g3 by (simp add: g3_def g2_def g1_def)
  show "should_continue (snd (should_continue (snd (should_continue
               (snd (should_continue self s)) s2)) s3)) s4 = (END, self\<lparr>erros_consecutivos := 4\<rparr>)"
    using r4 by (simp add: g3_def g2_def g1_def)
qed

theorem error_streak_below_iteration_limit_witness:
  "get_iterations (state_with 1 error_reply) < max_iterations demo_graph \<and>
   get_messages (state_with 1 error_reply) \<noteq> [] \<and>
   erros_consecutivos (snd (should_continue demo_graph (state_with 1 error_reply))) = 1 \<and>
   should_continue (snd (should_continue (snd (should_continue (snd (should_continue demo_graph
      (state_with 1 error_reply))) (state_with 2 error_reply))) (state_with 3 error_reply)))
      (state_with 4 error_reply) = (END, demo_graph\<lparr>erros_consecutivos := 4\<rparr>)"
proof -
  have sig: "error_signature error_reply" by code_simp
  have h: "get_iterations (state_with 1 error_reply) < max_iterations demo_graph"
    "get_messages (state_with 1 error_reply) \<noteq> []"
    by (simp_all add: state_with_def demo_graph_def get_iterations_def get_messages_def)
  have pre: "erros_consecutivos demo_graph = 0 \<and>
    error_signature (last (get_messages (state_with 1 error_reply))) \<and>
    (\<forall>x \<in> {state_with 2 error_reply, state_with 3 error_reply, state_with 4 error_reply}.
       get_iterations x < max_iterations demo_graph \<and> get_messages x \<noteq> [] \<and>
       error_signature (last (get_messages x)))"
    using sig by (simp add: state_with_def demo_graph_def get_iterations_def get_messages_def)
  from error_streak_below_iteration_limit[OF h] pre h show ?thesis by blast
qed

text \<open>
  C2 as stated fails twice. At the iteration limit \<open>should_continue\<close> returns before it
  looks at the last message, so a message with an error signature leaves the streak as it
  is. And after three checks on messages with an error signature the streak is 3, which
  does not exceed 3: a fourth check on a message without a signature goes on with \<open>Action\<close>.
\<close>

theorem error_streak_counterexample:
  "get_messages (state_with 5 error_reply) \<noteq> [] \<and>
   error_signature (last (get_messages (state_with 5 error_reply))) \<and>
   should_continue demo_graph (state_with 5 error_reply) = (END, demo_graph) \<and>
   erros_consecutivos (snd (should_continue demo_graph (state_with 5 error_reply))) = 0 \<and>
   erros_consecutivos (snd (should_continue (snd (should_continue (snd (should_continue demo_graph
      (state_with 1 error_reply))) (state_with 2 error_reply))) (state_with 3 error_reply))) = 3 \<and>
   fst (should_continue (snd (should_continue (snd (should_continue (snd (should_continue demo_graph
      (state_with 1 error_reply))) (state_with 2 error_reply))) (state_with 3 error_reply)))
      (state_with 4 plain_reply)) = Action"
  by code_simp

section \<open>Image content ends the chart loop\<close>

text \<open>
  C3. When the content of the last message starts with \<open>data:image/png;base64\<close>, both
  \<open>should_continue\<close> and \<open>should_end_after_environment\<close> route to \<open>END\<close>, whatever the
  iteration counter and the error streak are.
\<close>

theorem image_content_routes_to_END:
  assumes "messages s = Some ms" and "ms \<noteq> []" and "content (last ms) = Some c"
    and "prefix ''data:image/png;base64'' c"
  shows "fst (should_continue self s) = END \<and> should_end_after_environment s = END"
proof -
  from assms(4) have "c \<noteq> []" by auto
  with assms have img: "is_image_content (last ms)"
    by (simp add: is_image_content_def image_prefix_def)
  have gm: "get_messages s = ms" using assms(1) by (simp add: get_messages_def)
  have "fst (should_continue self s) = END"
    using img gm assms(2) by (simp add: should_continue_def Let_def split: prod.splits)
  moreover have "should_end_after_environment s = END"
    using img gm assms(2) by (simp add: should_end_after_environment_def)
  ultimately show ?thesis by simp
qed

theorem image_content_routes_to_END_witness:
  "get_iterations (state_with 1 image_reply) < max_iterations demo_graph \<and>
   fst (should_continue demo_graph (state_with 1 image_reply)) = END \<and>
   should_end_after_environment (state_with 1 image_reply) = END"
proof -
  have h: "messages (state_with 1 image_reply) = Some [image_reply]" "[image_reply] \<noteq> []"
    "content (last [image_reply]) = Some ''data:image/png;base64,iVBORw0KGgo=''"
    "prefix ''data:image/png;base64'' ''data:image/png;base64,iVBORw0KGgo=''"
    by (simp_all add: state_with_def image_reply_def)
  have "get_iterations (state_with 1 image_reply) < max_iterations demo_graph"
    by (simp add: state_with_def demo_graph_def get_iterations_def)
  with image_content_routes_to_END[OF h, of demo_graph] show ?thesis by simp
qed


section \<open>The tool execution node\<close>

lemma run_tool_calls_skip:
  "snd (run_tool_calls sd tools tcs res lg) =
   snd (run_tool_calls sd tools (filter (registered tools) tcs) res lg')"
proof (induction tcs arbitrary: res lg lg')
  case Nil
  show ?case by simp
next
  case (Cons tc tcs)
  show ?case
  proof (cases "tools (tc_name tc)")
    case None
    then show ?thesis using Cons.IH by (simp add: registered_def Let_def)
  next
    case (Some t)
    then show ?thesis using Cons.IH
      by (cases "t (tc_args tc)") (simp_all add: registered_def Let_def)
  qed
qed

lemma run_tool_calls_messages:
  "\<forall>tc \<in> set tcs. registered tools tc \<longrightarrow> handler_result tools tc = Inr (obs tc) \<Longrightarrow>
   snd (run_tool_calls sd tools tcs res lg) =
     Inr (res @ map (\<lambda>tc. tool_message sd (obs tc) tc) (filter (registered tools) tcs))"
proof (induction tcs arbitrary: res lg)
  case Nil
  show ?case by simp
next
  case (Cons tc tcs)
  show ?case
  proof (cases "tools (tc_name tc)")
    case None
    then show ?thesis using Cons by (simp add: registered_def Let_def)
  next
    case (Some t)
    with Cons.prems have "t (tc_args tc) = Inr (obs tc)"
      by (simp add: registered_def handler_result_def)
    with Some Cons show ?thesis
      by (simp add: registered_def Let_def tool_message_def)
  qed
qed

lemma run_tool_calls_log:
  "\<forall>tc \<in> set tcs. registered tools tc \<longrightarrow> handler_result tools tc = Inr (obs tc) \<Longrightarrow>
   not_found_entries (fst (run_tool_calls sd tools tcs res lg)) =
     not_found_entries lg @ map tc_name (filter (\<lambda>tc. \<not> registered tools tc) tcs)"
proof (induction tcs arbitrary: res lg)
  case Nil
  show ?case by (simp add: not_found_entries_def)
next
  case (Cons tc tcs)
  show ?case
  proof (cases "tools (tc_name tc)")
    case None
    then show ?thesis using Cons by (simp add: registered_def Let_def not_found_entries_def)
  next
    case (Some t)
    with Cons.prems have "t (tc_args tc) = Inr (obs tc)"
      by (simp add: registered_def handler_result_def)
    with Some Cons show ?thesis
      by (simp add: registered_def Let_def not_found_entries_def)
  qed
qed

lemma message_content_precedence:
  "(d ''image'' = Some img \<longrightarrow> message_content sd (ObsDict d) = img) \<and>
   (d ''image'' = None \<and> d ''error'' = Some err \<longrightarrow>
      message_content sd (ObsDict d) = erro_grafico @ err) \<and>
   (d ''image'' = None \<and> d ''error'' = None \<longrightarrow> message_content sd (ObsDict d) = sd d) \<and>
   message_content sd (ObsOther t) = t"
  by (simp add: message_content_def)

text \<open>
  C7. When the state has no key \<open>messages\<close>, no message, or a last message without the
  attribute \<open>tool_calls\<close>, \<open>tool_node\<close> returns an empty message list and does not raise;
  so it does when the list of tool calls is empty. A call that names an unregistered tool
  changes nothing in the result of the batch. When the handlers of the registered calls
  return, the node returns one \<open>ToolMessage\<close> for each registered call, in order, tagged
  with the identifier of its call, and logs each unregistered name. The content of a message
  is the image of a dict with the key \<open>image\<close>; else, for a dict with the key
  \<open>error\<close>, the text \<open>erro_grafico\<close> followed by the error; else \<open>str\<close> of the
  result.
\<close>

theorem tool_node_one_message_per_executed_call:
  "((messages s = None \<or> messages s = Some [] \<or>
      (\<exists>ms. messages s = Some ms \<and> ms \<noteq> [] \<and> (\<forall>c tcs. last ms \<noteq> AIMessage c tcs))) \<longrightarrow>
      tool_node sd tools s = ([Log_no_tool_calls], Inr [])) \<and>
   (\<forall>ms c tcs. messages s = Some ms \<and> ms \<noteq> [] \<and> last ms = AIMessage c tcs \<longrightarrow>
      (tcs = [] \<longrightarrow> snd (tool_node sd tools s) = Inr []) \<and>
      snd (tool_node sd tools s) =
        snd (run_tool_calls sd tools (filter (registered tools) tcs) [] []) \<and>
      ((\<forall>tc \<in> set tcs. registered tools tc \<longrightarrow> handler_result tools tc = Inr (obs tc)) \<longrightarrow>
         snd (tool_node sd tools s) =
           Inr (map (\<lambda>tc. tool_message sd (obs tc) tc) (filter (registered tools) tcs)) \<and>
         not_found_entries (fst (tool_node sd tools s)) =
           map tc_name (filter (\<lambda>tc. \<not> registered tools tc) tcs))) \<and>
   (\<forall>tc d img err t.
      tool_call_id (tool_message sd (obs tc) tc) = tc_id tc \<and>
      (d ''image'' = Some img \<longrightarrow> message_content sd (ObsDict d) = img) \<and>
      (d ''image'' = None \<and> d ''error'' = Some err \<longrightarrow>
         message_content sd (ObsDict d) = erro_grafico @ err) \<and>
      (d ''image'' = None \<and> d ''error'' = None \<longrightarrow> message_content sd (ObsDict d) = sd d) \<and>
      message_content sd (ObsOther t) = t)"
proof (intro conjI allI impI)
  assume "messages s = None \<or> messages s = Some [] \<or>
      (\<exists>ms. messages s = Some ms \<and> ms \<noteq> [] \<and> (\<forall>c tcs. last ms \<noteq> AIMessage c tcs))"
  then have "last_msg_tool_calls s = None"
    by (auto simp: last_msg_tool_calls_def split: message.splits)
  then show "tool_node sd tools s = ([Log_no_tool_calls], Inr [])"
    by (simp add: tool_node_def)
next
  fix ms c tcs
  assume a: "messages s = Some ms \<and> ms \<noteq> [] \<and> last ms = AIMessage c tcs"
  then have tn: "tool_node sd tools s = run_tool_calls sd tools tcs [] []"
    by (simp add: tool_node_def last_msg_tool_calls_def)
  show "snd (tool_node sd tools s) = Inr []" if "tcs = []"
    using that tn by simp
  show "snd (tool_node sd tools s) =
        snd (run_tool_calls sd tools (filter (registered tools) tcs) [] [])"
    unfolding tn by (rule run_tool_calls_skip)
  assume ok: "\<forall>tc \<in> set tcs. registered tools tc \<longrightarrow> handler_result tools tc = Inr (obs tc)"
  show "snd (tool_node sd tools s) =
           Inr (map (\<lambda>tc. tool_message sd (obs tc) tc) (filter (registered tools) tcs))"
    unfolding tn using run_tool_calls_messages[OF ok, of sd "[]" "[]"] by simp
  show "not_found_entries (fst (tool_node sd tools s)) =
           map tc_name (filter (\<lambda>tc. \<not> registered tools tc) tcs)"
    unfolding tn using run_tool_calls_log[OF ok, of sd "[]" "[]"]
    by (simp add: not_found_entries_def)
next
  fix tc
  show "tool_call_id (tool_message sd (obs tc) tc) = tc_id tc"
    by (simp add: tool_message_def)
qed (simp_all add: message_content_def)

theorem tool_node_one_message_per_executed_call_witness:
  "messages (state_with 1 (AIMessage (Some []) demo_calls)) =
     Some [AIMessage (Some []) demo_calls] \<and>
   map (handler_result demo_tools) demo_calls =
     map (\<lambda>tc. if registered demo_tools tc then Inr (demo_observation tc)
                else Inl ''not registered'') demo_calls \<and>
   snd (tool_node (\<lambda>d. ''{}'') demo_tools (state_with 1 (AIMessage (Some []) demo_calls))) =
     Inr [ToolMessage (Some ''data:image/png;base64,AAAA'') ''c1'',
          ToolMessage (Some (erro_grafico @ ''sem dados'')) ''c3'',
          ToolMessage (Some ''chats'') ''c4''] \<and>
   not_found_entries
     (fst (tool_node (\<lambda>d. ''{}'') demo_tools (state_with 1 (AIMessage (Some []) demo_calls)))) =
     [''drop_tables'']"
proof -
  have h: "messages (state_with 1 (AIMessage (Some []) demo_calls)) =
      Some [AIMessage (Some []) demo_calls] \<and> [AIMessage (Some []) demo_calls] \<noteq> [] \<and>
      last [AIMessage (Some []) demo_calls] = AIMessage (Some []) demo_calls"
    by (simp add: state_with_def)
  have ok: "\<forall>tc \<in> set demo_calls. registered demo_tools tc \<longrightarrow>
      handler_result demo_tools tc = Inr (demo_observation tc)"
    by (simp add: demo_calls_def registered_def demo_tools_def handler_result_def
        demo_observation_def)
  have reg: "filter (registered demo_tools) demo_calls =
      [demo_calls ! 0, demo_calls ! 2, demo_calls ! 3]"
    "filter (\<lambda>tc. \<not> registered demo_tools tc) demo_calls = [demo_calls ! 1]"
    by (simp_all add: demo_calls_def registered_def demo_tools_def)
  have msgs: "map (\<lambda>tc. tool_message (\<lambda>d. ''{}'') (demo_observation tc) tc)
      [demo_calls ! 0, demo_calls ! 2, demo_calls ! 3] =
     [ToolMessage (Some ''data:image/png;base64,AAAA'') ''c1'',
      ToolMessage (Some (erro_grafico @ ''sem dados'')) ''c3'',
      ToolMessage (Some ''chats'') ''c4'']"
    by (simp add: demo_calls_def tool_message_def demo_observation_def message_content_def)
  have nm: "map tc_name [demo_calls ! 1] = [''drop_tables'']"
    by (simp add: demo_calls_def)
  from tool_node_one_message_per_executed_call[of
      "state_with 1 (AIMessage (Some []) demo_calls)" "\<lambda>d. ''{}''" demo_tools demo_observation]
    h ok
  have "snd (tool_node (\<lambda>d. ''{}'') demo_tools (state_with 1 (AIMessage (Some []) demo_calls))) =
      Inr (map (\<lambda>tc. tool_message (\<lambda>d. ''{}'') (demo_observation tc) tc)
        (filter (registered demo_tools) demo_calls)) \<and>
    not_found_entries
      (fst (tool_node (\<lambda>d. ''{}'') demo_tools (state_with 1 (AIMessage (Some []) demo_calls)))) =
      map tc_name (filter (\<lambda>tc. \<not> registered demo_tools tc) demo_calls)"
    by blast
  moreover have "map (handler_result demo_tools) demo_calls =
     map (\<lambda>tc. if registered demo_tools tc then Inr (demo_observation tc)
                else Inl ''not registered'') demo_calls"
    by (simp add: demo_calls_def registered_def demo_tools_def handler_result_def
        demo_observation_def)
  ultimately show ?thesis using h reg msgs nm by simp
qed

section \<open>The outcomes of \<open>generate_chart\<close>\<close>

lemma generate_chart_total:
  "\<exists>d. generate_chart execute coerce figure render query chart_type title = Inr d"
  by (simp add: generate_chart_def split: sum.splits)

lemma select_plot_error_dict:
  "select_plot coerce df numeric_cols cat_cols chart_type = Inr (Inl d) \<Longrightarrow>
   d ''error'' \<noteq> None \<and> d ''image'' = None"
  by (auto simp: select_plot_def Let_def split: if_splits sum.splits)

lemma generate_chart_try_after_classify:
  assumes "execute query = Inr df" and "\<not> df_empty df"
    and "classify_columns coerce df = (numeric_cols, cat_cols)"
  shows "generate_chart_try execute coerce figure render query chart_type title =
     (case figure of
        Inl e \<Rightarrow> Inl e
      | Inr u \<Rightarrow>
          (case select_plot coerce df numeric_cols cat_cols chart_type of
             Inl e \<Rightarrow> Inl e
           | Inr (Inl d) \<Rightarrow> Inr d
           | Inr (Inr p) \<Rightarrow>
               (case render df p chart_type title of
                  Inl e \<Rightarrow> Inl e
                | Inr img_base64 \<Rightarrow>
                    Inr [''image'' \<mapsto> ''data:image/png;base64,'' @ img_base64,
                         ''message'' \<mapsto> sucesso chart_type])))"
  using assms by (simp add: generate_chart_try_def)

lemma generate_chart_after_classify:
  assumes "execute query = Inr df" and "\<not> df_empty df"
    and "classify_columns coerce df = (numeric_cols, cat_cols)"
  shows "generate_chart execute coerce figure render query chart_type title =
     (case figure of
        Inl e \<Rightarrow> Inr [''error'' \<mapsto> e]
      | Inr u \<Rightarrow>
          (case select_plot coerce df numeric_cols cat_cols chart_type of
             Inl e \<Rightarrow> Inr [''error'' \<mapsto> e]
           | Inr (Inl d) \<Rightarrow> Inr d
           | Inr (Inr p) \<Rightarrow>
               (case render df p chart_type title of
                  Inl e \<Rightarrow> Inr [''error'' \<mapsto> e]
                | Inr img_base64 \<Rightarrow>
                    Inr [''image'' \<mapsto> ''data:image/png;base64,'' @ img_base64,
                         ''message'' \<mapsto> sucesso chart_type])))"
  unfolding generate_chart_def
    generate_chart_try_after_classify[of execute query df coerce numeric_cols cat_cols, OF assms]
  by (simp split: sum.splits)

lemma generate_chart_shape:
  assumes "generate_chart execute coerce figure render query chart_type title = Inr d"
  shows "(d ''image'' \<noteq> None \<and> d ''error'' = None) \<or> (d ''error'' \<noteq> None \<and> d ''image'' = None)"
proof (cases "execute query")
  case (Inl e)
  with assms have "d = [''error'' \<mapsto> e]"
    by (simp add: generate_chart_def generate_chart_try_def)
  then show ?thesis by simp
next
  case (Inr df)
  show ?thesis
  proof (cases "df_empty df")
    case True
    with Inr assms have "d = [''error'' \<mapsto> nenhum_dado]"
      by (simp add: generate_chart_def generate_chart_try_def)
    then show ?thesis by simp
  next
    case False
    obtain numeric_cols cat_cols where cl: "classify_columns coerce df = (numeric_cols, cat_cols)"
      by (cases "classify_columns coerce df")
    note eq = generate_chart_after_classify[of execute query df coerce numeric_cols cat_cols,
        OF Inr False cl, of figure render chart_type title]
    show ?thesis
    proof (cases figure)
      case (Inl e)
      with eq assms have "d = [''error'' \<mapsto> e]" by simp
      then show ?thesis by simp
    next
      case fig: (Inr u)
      show ?thesis
      proof (cases "select_plot coerce df numeric_cols cat_cols chart_type")
        case (Inl e)
        with eq assms fig have "d = [''error'' \<mapsto> e]" by simp
        then show ?thesis by simp
      next
        case (Inr r)
        show ?thesis
        proof (cases r)
          case (Inl d')
          with eq assms fig Inr have "d = d'" by simp
          with select_plot_error_dict[of coerce df numeric_cols cat_cols chart_type d'] Inr Inl
          show ?thesis by simp
        next
          case p: (Inr p)
          show ?thesis
          proof (cases "render df p chart_type title")
            case (Inl e)
            with eq assms fig Inr p have "d = [''error'' \<mapsto> e]" by simp
            then show ?thesis by simp
          next
            case img: (Inr img)
            with eq assms fig Inr p have
              "d = [''image'' \<mapsto> ''data:image/png;base64,'' @ img, ''message'' \<mapsto> sucesso chart_type]"
              by simp
            then show ?thesis by simp
          qed
        qed
      qed
    qed
  qed
qed

lemma violation_cases:
  assumes "(t = p \<and> A) \<or> (t = s \<and> B) \<or> (t = h \<and> C) \<or> ((t = b \<or> t = l) \<and> D)"
  obtains (pie) "t = p" A | (scatter) "t = s" B | (heatmap) "t = h" C
    | (barline) "t = b \<or> t = l" D
  using assms by blast

lemma select_plot_violation:
  assumes "violates chart_type (length cat_cols) (length numeric_cols)"
  shows "select_plot coerce df numeric_cols cat_cols chart_type =
     Inr (Inl [''error'' \<mapsto>
       (if chart_type = ''pie'' then erro_pizza
        else if chart_type = ''scatter'' then erro_scatter
        else if chart_type = ''heatmap'' then erro_heatmap
        else erro_colunas chart_type (length cat_cols) (length numeric_cols))])"
  using assms[unfolded violates_def]
proof (cases rule: violation_cases)
  case pie
  then show ?thesis by (simp add: select_plot_def)
next
  case scatter
  then show ?thesis by (simp add: select_plot_def)
next
  case heatmap
  then show ?thesis by (simp add: select_plot_def)
next
  case barline
  from barline(1) have ne: "chart_type \<noteq> ''pie''" "chart_type \<noteq> ''scatter''"
    "chart_type \<noteq> ''heatmap''" by (elim disjE; simp)+
  from barline(2) have nz: "length numeric_cols = 0" by arith
  show ?thesis using barline(1) ne nz by (simp add: select_plot_def)
qed

text \<open>
  C4. For a query result that is not empty, \<open>generate_chart\<close> returns a dict with the key
  \<open>error\<close> and without the key \<open>image\<close> whenever the classified columns do not meet
  the needs of the chart type: pie without a categorical or without a numeric column,
  scatter with fewer than two numeric columns, heatmap with fewer than two categorical or
  without a numeric column, bar and line outside their three cases. When \<open>plt.figure\<close>
  succeeds the message is the one of the branch.
\<close>

theorem generate_chart_rejects_column_mix:
  assumes "execute query = Inr df" and "\<not> df_empty df"
    and "classify_columns coerce df = (numeric_cols, cat_cols)"
    and "violates chart_type (length cat_cols) (length numeric_cols)"
  shows "\<exists>d. generate_chart execute coerce figure render query chart_type title = Inr d \<and>
     d ''error'' \<noteq> None \<and> d ''image'' = None \<and>
     (\<forall>u. figure = Inr u \<longrightarrow> d ''error'' = Some
       (if chart_type = ''pie'' then erro_pizza
        else if chart_type = ''scatter'' then erro_scatter
        else if chart_type = ''heatmap'' then erro_heatmap
        else erro_colunas chart_type (length cat_cols) (length numeric_cols)))"
  unfolding generate_chart_after_classify[of execute query df coerce numeric_cols cat_cols, OF assms(1-3)]
    select_plot_violation[OF assms(4)]
  by (cases figure) simp_all

theorem generate_chart_rejects_column_mix_witness:
  "\<not> df_empty only_x \<and> classify_columns demo_coerce only_x = ([''x''], []) \<and>
   error_of (generate_chart (demo_execute only_x) demo_coerce (Inr ()) demo_render
     ''SELECT x FROM t'' ''pie'' []) = Some erro_pizza \<and>
   image_of (generate_chart (demo_execute only_x) demo_coerce (Inr ()) demo_render
     ''SELECT x FROM t'' ''pie'' []) = None"
proof -
  have h1: "demo_execute only_x ''SELECT x FROM t'' = Inr only_x" by (simp add: demo_execute_def)
  have h2: "\<not> df_empty only_x" by code_simp
  have h3: "classify_columns demo_coerce only_x = ([''x''], [])" by code_simp
  have h4: "violates ''pie'' (length ([] :: string list)) (length [''x''])"
    by (simp add: violates_def)
  from generate_chart_rejects_column_mix[of "demo_execute only_x" "''SELECT x FROM t''" only_x
      demo_coerce "[''x'']" "[]" "''pie''" "Inr ()" demo_render "[]", OF h1 h2 h3 h4]
  obtain d where d: "generate_chart (demo_execute only_x) demo_coerce (Inr ()) demo_render
      ''SELECT x FROM t'' ''pie'' [] = Inr d" "d ''image'' = None"
    "\<forall>u. (Inr () :: string + unit) = Inr u \<longrightarrow> d ''error'' = Some erro_pizza"
    by auto
  from d(3) have "d ''error'' = Some erro_pizza" by simp
  with d(1,2) h2 h3 show ?thesis by (simp add: error_of_def image_of_def)
qed

text \<open>
  C6. \<open>generate_chart\<close> always returns a dict, with either the key \<open>image\<close> or the key
  \<open>error\<close> and never both. An exception of the query gives the error dict with its text;
  an empty result gives the message \<open>nenhum_dado\<close>; an exception of \<open>plt.figure\<close>, of
  the second coercion in the pie branch or of the drawing gives the error dict with its
  text; a chart type outside the five known ones gives a message that lists them; and a
  drawing that succeeds gives the image as a data URI.
\<close>

theorem generate_chart_never_raises:
  "(\<exists>d. generate_chart execute coerce figure render query chart_type title = Inr d \<and>
        ((d ''image'' \<noteq> None \<and> d ''error'' = None) \<or> (d ''error'' \<noteq> None \<and> d ''image'' = None))) \<and>
   (\<forall>e. execute query = Inl e \<longrightarrow>
        generate_chart execute coerce figure render query chart_type title = Inr [''error'' \<mapsto> e]) \<and>
   (\<forall>df. execute query = Inr df \<and> df_empty df \<longrightarrow>
        generate_chart execute coerce figure render query chart_type title =
          Inr [''error'' \<mapsto> nenhum_dado]) \<and>
   (\<forall>df numeric_cols cat_cols.
      execute query = Inr df \<and> \<not> df_empty df \<and>
      classify_columns coerce df = (numeric_cols, cat_cols) \<longrightarrow>
        (\<forall>e. figure = Inl e \<longrightarrow>
           generate_chart execute coerce figure render query chart_type title =
             Inr [''error'' \<mapsto> e]) \<and>
        (\<forall>u. figure = Inr u \<longrightarrow>
           (chart_type \<notin> {''bar'', ''line'', ''pie'', ''scatter'', ''heatmap''} \<longrightarrow>
              generate_chart execute coerce figure render query chart_type title =
                Inr [''error'' \<mapsto> erro_tipo chart_type]) \<and>
           (\<forall>e. select_plot coerce df numeric_cols cat_cols chart_type = Inl e \<longrightarrow>
              generate_chart execute coerce figure render query chart_type title =
                Inr [''error'' \<mapsto> e]) \<and>
           (\<forall>p. select_plot coerce df numeric_cols cat_cols chart_type = Inr (Inr p) \<longrightarrow>
              (\<forall>e. render df p chart_type title = Inl e \<longrightarrow>
                 generate_chart execute coerce figure render query chart_type title =
                   Inr [''error'' \<mapsto> e]) \<and>
              (\<forall>img. render df p chart_type title = Inr img \<longrightarrow>
                 generate_chart execute coerce figure render query chart_type title =
                   Inr [''image'' \<mapsto> ''data:image/png;base64,'' @ img,
                        ''message'' \<mapsto> sucesso chart_type])))) \<and>
   sublist ''Use: bar, line, pie, scatter, heatmap.'' (erro_tipo chart_type)"
proof (intro conjI allI impI)
  show "\<exists>d. generate_chart execute coerce figure render query chart_type title = Inr d \<and>
        ((d ''image'' \<noteq> None \<and> d ''error'' = None) \<or> (d ''error'' \<noteq> None \<and> d ''image'' = None))"
  proof -
    obtain d where d: "generate_chart execute coerce figure render query chart_type title = Inr d"
      using generate_chart_total[of execute coerce figure render query chart_type title] ..
    from generate_chart_shape[OF d] d show ?thesis by (intro exI[of _ d] conjI)
  qed
next
  fix e assume "execute query = Inl e"
  then show "generate_chart execute coerce figure render query chart_type title = Inr [''error'' \<mapsto> e]"
    by (simp add: generate_chart_def generate_chart_try_def)
next
  fix df assume "execute query = Inr df \<and> df_empty df"
  then show "generate_chart execute coerce figure render query chart_type title =
          Inr [''error'' \<mapsto> nenhum_dado]"
    by (simp add: generate_chart_def generate_chart_try_def)
next
  have "sublist ''Use: bar, line, pie, scatter, heatmap.''
     ((''Tipo de gr'' @ a_acute @ ''fico '' @ [CHR 0x27] @ chart_type @ [CHR 0x27] @ '' n'' @
     a_tilde @ ''o reconhecido. '') @ ''Use: bar, line, pie, scatter, heatmap.'' @ [])"
    by (rule sublist_appendI)
  then show "sublist ''Use: bar, line, pie, scatter, heatmap.'' (erro_tipo chart_type)"
    by (simp add: erro_tipo_def)
next
  fix df numeric_cols cat_cols e
  assume a: "execute query = Inr df \<and> \<not> df_empty df \<and>
      classify_columns coerce df = (numeric_cols, cat_cols)" and f: "figure = Inl e"
  from a have b: "execute query = Inr df" "\<not> df_empty df"
    "classify_columns coerce df = (numeric_cols, cat_cols)" by auto
  show "generate_chart execute coerce figure render query chart_type title = Inr [''error'' \<mapsto> e]"
    unfolding generate_chart_after_classify[of execute query df coerce numeric_cols cat_cols, OF b]
    using f by simp
next
  fix df numeric_cols cat_cols u
  assume a: "execute query = Inr df \<and> \<not> df_empty df \<and>
      classify_columns coerce df = (numeric_cols, cat_cols)" and f: "figure = Inr u"
    and t: "chart_type \<notin> {''bar'', ''line'', ''pie'', ''scatter'', ''heatmap''}"
  from a have b: "execute query = Inr df" "\<not> df_empty df"
    "classify_columns coerce df = (numeric_cols, cat_cols)" by auto
  from t have "select_plot coerce df numeric_cols cat_cols chart_type =
    Inr (Inl [''error'' \<mapsto> erro_tipo chart_type])"
    by (simp add: select_plot_def)
  then show "generate_chart execute coerce figure render query chart_type title =
                Inr [''error'' \<mapsto> erro_tipo chart_type]"
    unfolding generate_chart_after_classify[of execute query df coerce numeric_cols cat_cols, OF b]
    using f by simp
next
  fix df numeric_cols cat_cols u e
  assume a: "execute query = Inr df \<and> \<not> df_empty df \<and>
      classify_columns coerce df = (numeric_cols, cat_cols)" and f: "figure = Inr u"
    and t: "select_plot coerce df numeric_cols cat_cols chart_type = Inl e"
  from a have b: "execute query = Inr df" "\<not> df_empty df"
    "classify_columns coerce df = (numeric_cols, cat_cols)" by auto
  show "generate_chart execute coerce figure render query chart_type title =
                Inr [''error'' \<mapsto> e]"
    unfolding generate_chart_after_classify[of execute query df coerce numeric_cols cat_cols, OF b]
    using f t by simp
next
  fix df numeric_cols cat_cols u p e
  assume a: "execute query = Inr df \<and> \<not> df_empty df \<and>
      classify_columns coerce df = (numeric_cols, cat_cols)" and f: "figure = Inr u"
    and t: "select_plot coerce df numeric_cols cat_cols chart_type = Inr (Inr p)"
    and r: "render df p chart_type title = Inl e"
  from a have b: "execute query = Inr df" "\<not> df_empty df"
    "classify_columns coerce df = (numeric_cols, cat_cols)" by auto
  show "generate_chart execute coerce figure render query chart_type title =
                Inr [''error'' \<mapsto> e]"
    unfolding generate_chart_after_classify[of execute query df coerce numeric_cols cat_cols, OF b]
    using f t r by simp
next
  fix df numeric_cols cat_cols u p img
  assume a: "execute query = Inr df \<and> \<not> df_empty df \<and>
      classify_columns coerce df = (numeric_cols, cat_cols)" and f: "figure = Inr u"
    and t: "select_plot coerce df numeric_cols cat_cols chart_type = Inr (Inr p)"
    and r: "render df p chart_type title = Inr img"
  from a have b: "execute query = Inr df" "\<not> df_empty df"
    "classify_columns coerce df = (numeric_cols, cat_cols)" by auto
  show "generate_chart execute coerce figure render query chart_type title =
                   Inr [''image'' \<mapsto> ''data:image/png;base64,'' @ img,
                        ''message'' \<mapsto> sucesso chart_type]"
    unfolding generate_chart_after_classify[of execute query df coerce numeric_cols cat_cols, OF b]
    using f t r by simp
qed

theorem generate_chart_never_raises_witness:
  "error_of (generate_chart (\<lambda>q. Inl ''(pymysql.err.OperationalError) (2013, ...)'') demo_coerce
     (Inr ()) demo_render ''SELECT 1'' ''pie'' []) =
     Some ''(pymysql.err.OperationalError) (2013, ...)'' \<and>
   error_of (generate_chart (demo_execute []) demo_coerce (Inr ()) demo_render
     ''SELECT 1'' ''pie'' []) = Some nenhum_dado \<and>
   error_of (generate_chart (demo_execute category_value) demo_coerce (Inr ()) demo_render
     ''SELECT category, value FROM t'' ''radar'' []) = Some (erro_tipo ''radar'') \<and>
   error_of (generate_chart (demo_execute category_value) demo_coerce (Inr ())
     (\<lambda>df p chart_type title. Inl ''savefig failed'')
     ''SELECT category, value FROM t'' ''pie'' []) = Some ''savefig failed'' \<and>
   image_of (generate_chart (demo_execute category_value) demo_coerce (Inr ()) demo_render
     ''SELECT category, value FROM t'' ''pie'' []) = Some ''data:image/png;base64,iVBORw0KGgo=''"
proof -
  have e1: "(\<lambda>q. Inl ''(pymysql.err.OperationalError) (2013, ...)'' :: string + cell dataframe)
      ''SELECT 1'' = Inl ''(pymysql.err.OperationalError) (2013, ...)''" by simp
  have e2: "demo_execute [] ''SELECT 1'' = Inr [] \<and> df_empty ([] :: cell dataframe)"
    by (simp add: demo_execute_def df_empty_def)
  have e3: "demo_execute category_value ''SELECT category, value FROM t'' = Inr category_value \<and>
    \<not> df_empty category_value \<and>
    classify_columns demo_coerce category_value = ([''value''], [''category''])"
    by code_simp
  have t3: "''radar'' \<notin> {''bar'', ''line'', ''pie'', ''scatter'', ''heatmap''}" by simp
  have p: "select_plot demo_coerce category_value [''value''] [''category''] ''pie'' =
    Inr (Inr (Pie ''value'' ''category''))"
    by (simp add: select_plot_def to_numeric_def getitem_def category_value_def)
  have r5: "demo_render category_value (Pie ''value'' ''category'') ''pie'' [] = Inr ''iVBORw0KGgo=''"
    by (simp add: demo_render_def)
  note a = generate_chart_never_raises[of "\<lambda>q. Inl ''(pymysql.err.OperationalError) (2013, ...)''"
      demo_coerce "Inr ()" demo_render "''SELECT 1''" "''pie''" "[]"]
  note b = generate_chart_never_raises[of "demo_execute []" demo_coerce "Inr ()" demo_render
      "''SELECT 1''" "''pie''" "[]"]
  note c = generate_chart_never_raises[of "demo_execute category_value" demo_coerce "Inr ()"
      demo_render "''SELECT category, value FROM t''" "''radar''" "[]"]
  note d = generate_chart_never_raises[of "demo_execute category_value" demo_coerce "Inr ()"
      "\<lambda>df p chart_type title. Inl ''savefig failed''" "''SELECT category, value FROM t''"
      "''pie''" "[]"]
  note e = generate_chart_never_raises[of "demo_execute category_value" demo_coerce "Inr ()"
      demo_render "''SELECT category, value FROM t''" "''pie''" "[]"]
  have 1: "generate_chart (\<lambda>q. Inl ''(pymysql.err.OperationalError) (2013, ...)'') demo_coerce
     (Inr ()) demo_render ''SELECT 1'' ''pie'' [] =
     Inr [''error'' \<mapsto> ''(pymysql.err.OperationalError) (2013, ...)'']"
    using a[THEN conjunct2, THEN conjunct1] e1 by simp
  have 2: "generate_chart (demo_execute []) demo_coerce (Inr ()) demo_render
     ''SELECT 1'' ''pie'' [] = Inr [''error'' \<mapsto> nenhum_dado]"
    using b[THEN conjunct2, THEN conjunct2, THEN conjunct1] e2 by simp
  have 3: "generate_chart (demo_execute category_value) demo_coerce (Inr ()) demo_render
     ''SELECT category, value FROM t'' ''radar'' [] = Inr [''error'' \<mapsto> erro_tipo ''radar'']"
    using c[THEN conjunct2, THEN conjunct2, THEN conjunct2, THEN conjunct1, rule_format,
        of category_value "[''value'']" "[''category'']"] e3 t3
    by simp
  have 4: "generate_chart (demo_execute category_value) demo_coerce (Inr ())
     (\<lambda>df p chart_type title. Inl ''savefig failed'')
     ''SELECT category, value FROM t'' ''pie'' [] = Inr [''error'' \<mapsto> ''savefig failed'']"
    using d[THEN conjunct2, THEN conjunct2, THEN conjunct2, THEN conjunct1, rule_format,
        of category_value "[''value'']" "[''category'']"] e3 p
    by simp
  have 5: "generate_chart (demo_execute category_value) demo_coerce (Inr ()) demo_render
     ''SELECT category, value FROM t'' ''pie'' [] =
     Inr [''image'' \<mapsto> ''data:image/png;base64,'' @ ''iVBORw0KGgo='',
          ''message'' \<mapsto> sucesso ''pie'']"
    using e[THEN conjunct2, THEN conjunct2, THEN conjunct2, THEN conjunct1, rule_format,
        of category_value "[''value'']" "[''category'']"] e3 p r5
    by simp
  show ?thesis unfolding 1 2 3 4 5 by (simp add: error_of_def image_of_def)
qed

lemma erro_colunas_names_counts:
  "sublist ('' com '' @ str_nat n_cat @ '' colunas categ'') (erro_colunas chart_type n_cat n_num) \<and>
   sublist (''ricas e '' @ str_nat n_num @ '' colunas num'') (erro_colunas chart_type n_cat n_num)"
proof
  have "erro_colunas chart_type n_cat n_num =
    (''N'' @ a_tilde @ ''o foi poss'' @ i_acute @ ''vel gerar gr'' @ a_acute @ ''fico '' @
     [CHR 0x27] @ chart_type @ [CHR 0x27]) @ ('' com '' @ str_nat n_cat @ '' colunas categ'') @
     (o_acute @ ''ricas e '' @ str_nat n_num @ '' colunas num'' @ e_acute @ ''ricas.'')"
    by (simp add: erro_colunas_def)
  then show "sublist ('' com '' @ str_nat n_cat @ '' colunas categ'') (erro_colunas chart_type n_cat n_num)"
    unfolding sublist_def by blast
  have "erro_colunas chart_type n_cat n_num =
    (''N'' @ a_tilde @ ''o foi poss'' @ i_acute @ ''vel gerar gr'' @ a_acute @ ''fico '' @
     [CHR 0x27] @ chart_type @ [CHR 0x27] @ '' com '' @ str_nat n_cat @ '' colunas categ'' @ o_acute) @
     (''ricas e '' @ str_nat n_num @ '' colunas num'') @ (e_acute @ ''ricas.'')"
    by (simp add: erro_colunas_def)
  then show "sublist (''ricas e '' @ str_nat n_num @ '' colunas num'') (erro_colunas chart_type n_cat n_num)"
    unfolding sublist_def by blast
qed

text \<open>
  C8, as amended. The column-count error of the bar and line branches names the counts of
  categorical and of numeric columns that \<open>classify_columns\<close> has found, in decimal. The
  heatmap branch returns a fixed message, which states what a heatmap needs.
\<close>

theorem bar_line_error_names_counts:
  assumes "execute query = Inr df" and "\<not> df_empty df"
    and "classify_columns coerce df = (numeric_cols, cat_cols)" and "figure = Inr u"
    and "violates chart_type (length cat_cols) (length numeric_cols)"
  shows "(chart_type = ''bar'' \<or> chart_type = ''line'' \<longrightarrow>
      generate_chart execute coerce figure render query chart_type title =
        Inr [''error'' \<mapsto> erro_colunas chart_type (length cat_cols) (length numeric_cols)] \<and>
      sublist ('' com '' @ str_nat (length cat_cols) @ '' colunas categ'')
        (erro_colunas chart_type (length cat_cols) (length numeric_cols)) \<and>
      sublist (''ricas e '' @ str_nat (length numeric_cols) @ '' colunas num'')
        (erro_colunas chart_type (length cat_cols) (length numeric_cols))) \<and>
    (chart_type = ''heatmap'' \<longrightarrow>
      generate_chart execute coerce figure render query chart_type title =
        Inr [''error'' \<mapsto> erro_heatmap])"
proof -
  note eq = generate_chart_after_classify[of execute query df coerce numeric_cols cat_cols,
      OF assms(1-3), of figure render chart_type title,
      unfolded select_plot_violation[OF assms(5)] assms(4)]
  show ?thesis
  proof (intro conjI impI)
    assume bl: "chart_type = ''bar'' \<or> chart_type = ''line''"
    then have ne: "chart_type \<noteq> ''pie''" "chart_type \<noteq> ''scatter''"
      "chart_type \<noteq> ''heatmap''" by (elim disjE; simp)+
    show "generate_chart execute coerce figure render query chart_type title =
        Inr [''error'' \<mapsto> erro_colunas chart_type (length cat_cols) (length numeric_cols)]"
      using eq ne assms(4) by simp
    show "sublist ('' com '' @ str_nat (length cat_cols) @ '' colunas categ'')
        (erro_colunas chart_type (length cat_cols) (length numeric_cols))"
      using erro_colunas_names_counts by (rule conjunct1)
    show "sublist (''ricas e '' @ str_nat (length numeric_cols) @ '' colunas num'')
        (erro_colunas chart_type (length cat_cols) (length numeric_cols))"
      using erro_colunas_names_counts by (rule conjunct2)
  next
    assume "chart_type = ''heatmap''"
    then show "generate_chart execute coerce figure render query chart_type title =
        Inr [''error'' \<mapsto> erro_heatmap]"
      using eq assms(4) by simp
  qed
qed

theorem bar_line_error_names_counts_witness:
  "\<not> df_empty only_name \<and> classify_columns demo_coerce only_name = ([], [''name'']) \<and>
   error_of (generate_chart (demo_execute only_name) demo_coerce (Inr ()) demo_render
     ''SELECT name FROM t'' ''bar'' []) = Some (erro_colunas ''bar'' 1 0) \<and>
   sublist '' com 1 colunas categ'' (erro_colunas ''bar'' 1 0) \<and>
   sublist ''ricas e 0 colunas num'' (erro_colunas ''bar'' 1 0)"
proof -
  have h1: "demo_execute only_name ''SELECT name FROM t'' = Inr only_name"
    by (simp add: demo_execute_def)
  have h2: "\<not> df_empty only_name" by code_simp
  have h3: "classify_columns demo_coerce only_name = ([], [''name''])" by code_simp
  have h4: "(Inr () :: string + unit) = Inr ()" by simp
  have h5: "violates ''bar'' (length [''name'']) (length ([] :: string list))"
    by (simp add: violates_def)
  from bar_line_error_names_counts[of "demo_execute only_name" "''SELECT name FROM t''"
      only_name demo_coerce "[]" "[''name'']" "Inr ()" "()" "''bar''" demo_render "[]",
      OF h1 h2 h3 h4 h5, THEN conjunct1]
  have "generate_chart (demo_execute only_name) demo_coerce (Inr ()) demo_render
      ''SELECT name FROM t'' ''bar'' [] = Inr [''error'' \<mapsto> erro_colunas ''bar'' 1 0] \<and>
    sublist '' com 1 colunas categ'' (erro_colunas ''bar'' 1 0) \<and>
    sublist ''ricas e 0 colunas num'' (erro_colunas ''bar'' 1 0)"
    by (simp add: digit_char_def)
  with h2 h3 show ?thesis by (simp add: error_of_def)
qed

text \<open>
  C8 as stated fails for the heatmap branch: for a result with no categorical and three
  numeric columns, and for one with one categorical and no numeric column, the message is
  the same fixed text, in which neither \<open>0\<close> nor \<open>3\<close> occurs.
\<close>

theorem heatmap_error_counterexample:
  "classify_columns demo_coerce three_numeric = ([''x'', ''y'', ''z''], []) \<and>
   error_of (generate_chart (demo_execute three_numeric) demo_coerce (Inr ()) demo_render
     ''SELECT x, y, z FROM t'' ''heatmap'' []) = Some erro_heatmap \<and>
   \<not> sublist (str_nat 0) erro_heatmap \<and> \<not> sublist (str_nat 3) erro_heatmap \<and>
   classify_columns demo_coerce only_name = ([], [''name'']) \<and>
   error_of (generate_chart (demo_execute only_name) demo_coerce (Inr ()) demo_render
     ''SELECT name FROM t'' ''heatmap'' []) = Some erro_heatmap"
  by code_simp

section \<open>Recovery from the recursion limit\<close>

text \<open>
  C9. \<open>invoke\<close> never raises \<open>GraphRecursionError\<close>: when the run of the graph raises it,
  \<open>invoke\<close> returns a result whose \<open>messages\<close> is exactly one dict, with sender
  \<open>agent\<close> and a content that asks the user to refine the query.
\<close>

theorem invoke_recovers_from_recursion_limit:
  "(\<forall>t. invoke limit E self cid question fl \<noteq> Inl (GraphRecursionError t)) \<and>
   (\<forall>t. graph_invoke limit E N_decide_chart
          (\<lparr>chat_id = cid, user_question = question, file_text = fl, iterations = Some 0,
            messages = Some [], needs_chart = None\<rparr>, self) = Inl (GraphRecursionError t) \<longrightarrow>
        (\<exists>m. invoke limit E self cid question fl = Inr (Recovered [m]) \<and>
             m ''sender'' = Some ''agent'' \<and> m ''content'' = Some limite_text)) \<and>
   sublist ''Por favor, refine sua consulta'' limite_text"
proof (intro conjI allI impI)
  fix t
  show "invoke limit E self cid question fl \<noteq> Inl (GraphRecursionError t)"
    by (simp add: invoke_def Let_def split: sum.splits exn.splits prod.splits)
next
  fix t
  assume "graph_invoke limit E N_decide_chart
          (\<lparr>chat_id = cid, user_question = question, file_text = fl, iterations = Some 0,
            messages = Some [], needs_chart = None\<rparr>, self) = Inl (GraphRecursionError t)"
  then show "\<exists>m. invoke limit E self cid question fl = Inr (Recovered [m]) \<and>
             m ''sender'' = Some ''agent'' \<and> m ''content'' = Some limite_text"
    by (simp add: invoke_def Let_def)
next
  show "sublist ''Por favor, refine sua consulta'' limite_text"
    by code_simp
qed

theorem invoke_recovers_from_recursion_limit_witness:
  "graph_invoke 2 demo_env N_decide_chart
     (\<lparr>chat_id = ''1'', user_question = ''plot'', file_text = None, iterations = Some 0,
       messages = Some [], needs_chart = None\<rparr>, demo_graph) =
     Inl (GraphRecursionError recursion_text) \<and>
   (\<exists>m. invoke 2 demo_env demo_graph ''1'' ''plot'' None = Inr (Recovered [m]) \<and>
        m ''sender'' = Some ''agent'' \<and> m ''content'' = Some limite_text)"
proof -
  have run: "graph_invoke 2 demo_env N_decide_chart
     (\<lparr>chat_id = ''1'', user_question = ''plot'', file_text = None, iterations = Some 0,
       messages = Some [], needs_chart = None\<rparr>, demo_graph) =
     Inl (GraphRecursionError recursion_text)"
    by code_simp
  with invoke_recovers_from_recursion_limit[of 2 demo_env demo_graph "''1''" "''plot''" None]
  show ?thesis by blast
qed

section \<open>The read-only guard of \<open>consult_database\<close>\<close>

text \<open>
  C10. A query whose upper-cased text contains one of \<open>DELETE\<close>, \<open>ALTER\<close>, \<open>CREATE\<close>,
  \<open>DROP\<close>, \<open>UPDATE\<close>, \<open>INSERT\<close>, \<open>TRUNCATE\<close>, \<open>REPLACE\<close> anywhere, also inside an
  identifier, gets the fixed rejection message, and nothing is sent to \<open>db.execute\<close>,
  whatever \<open>str.upper\<close> does with the letters of the query.
\<close>

theorem consult_database_rejects_keywords:
  assumes "sublist ''DELETE'' (upper query) \<or> sublist ''ALTER'' (upper query) \<or>
    sublist ''CREATE'' (upper query) \<or> sublist ''DROP'' (upper query) \<or>
    sublist ''UPDATE'' (upper query) \<or> sublist ''INSERT'' (upper query) \<or>
    sublist ''TRUNCATE'' (upper query) \<or> sublist ''REPLACE'' (upper query)"
  shows "consult_database upper execute query = (apenas_leitura, [])"
  using assms by (auto simp: consult_database_def forbidden_def)

theorem consult_database_rejects_keywords_witness:
  "sublist ''UPDATE'' (ascii_upper ''SELECT updated_at FROM chats'') \<and>
   consult_database ascii_upper (\<lambda>q. Inr (Rows [''(2024, 1, 1)'']))
     ''SELECT updated_at FROM chats'' = (apenas_leitura, []) \<and>
   consult_database ascii_upper (\<lambda>q. Inr (Rows [''(2024, 1, 1)''])) ''SELECT name FROM chats'' =
     (''(2024, 1, 1)'', [''SELECT name FROM chats'']) \<and>
   sublist ''INSERT'' (dotless_upper dotless_query) \<and>
   consult_database dotless_upper (\<lambda>q. Inr (Rows [''(2024, 1, 1)''])) dotless_query =
     (apenas_leitura, []) \<and>
   consult_database ascii_upper (\<lambda>q. Inr (Rows [''(2024, 1, 1)''])) dotless_query =
     (''(2024, 1, 1)'', [dotless_query])"
proof -
  have h: "sublist ''UPDATE'' (ascii_upper ''SELECT updated_at FROM chats'')" by code_simp
  have other: "consult_database ascii_upper (\<lambda>q. Inr (Rows [''(2024, 1, 1)'']))
     ''SELECT name FROM chats'' = (''(2024, 1, 1)'', [''SELECT name FROM chats''])" by code_simp
  have dotless: "sublist ''INSERT'' (dotless_upper dotless_query) \<and>
   consult_database dotless_upper (\<lambda>q. Inr (Rows [''(2024, 1, 1)''])) dotless_query =
     (apenas_leitura, []) \<and>
   consult_database ascii_upper (\<lambda>q. Inr (Rows [''(2024, 1, 1)''])) dotless_query =
     (''(2024, 1, 1)'', [dotless_query])" by code_simp
  from h other dotless consult_database_rejects_keywords[of ascii_upper
      "''SELECT updated_at FROM chats''" "\<lambda>q. Inr (Rows [''(2024, 1, 1)''])"]
  show ?thesis by simp
qed

end
